theory Spec2Isabelle
  imports Complex_Main
begin

section \<open>JavaScript values\<close>

text \<open>
  The service is one Express application (\<^verbatim>\<open>src/index.js\<close>). Request bodies are
  what \<^verbatim>\<open>express.json\<close> parsed, so every value a handler reads is a JSON value, or
  \<^verbatim>\<open>undefined\<close> for a property that is not there.

  A number is an IEEE double. A finite double is represented by its exact rational
  value, and the two zeros are one value: nothing in the source tells them apart
  (\<^verbatim>\<open>String\<close>, \<^verbatim>\<open>||\<close> and \<^verbatim>\<open>padStart\<close> treat them alike). Arithmetic on
  \<open>Fin\<close> is exact; it agrees with the doubles wherever the operands are integers
  below \<open>2 ^ 53\<close>, which is where the theorems below use it.
\<close>

datatype jsnum = NaN | PInf | NInf | Fin rat

datatype json =
    JUndef
  | JNull
  | JBool bool
  | JNum jsnum
  | JStr string
  | JArr "json list"
  | JObj "(string \<times> json) list"

text \<open>Truthiness, as \<^verbatim>\<open>!x\<close>, \<^verbatim>\<open>x || y\<close> and \<^verbatim>\<open>x ? a : b\<close> test it.\<close>

fun truthy :: "json \<Rightarrow> bool" where
  "truthy JUndef = False"
| "truthy JNull = False"
| "truthy (JBool b) = b"
| "truthy (JNum NaN) = False"
| "truthy (JNum PInf) = True"
| "truthy (JNum NInf) = True"
| "truthy (JNum (Fin q)) = (q \<noteq> 0)"
| "truthy (JStr s) = (s \<noteq> [])"
| "truthy (JArr xs) = True"
| "truthy (JObj kvs) = True"

definition js_or :: "json \<Rightarrow> json \<Rightarrow> json" where
  "js_or a b = (if truthy a then a else b)"

text \<open>
  Reading a property: \<^verbatim>\<open>x.name\<close> throws a TypeError on \<^verbatim>\<open>null\<close> and
  \<^verbatim>\<open>undefined\<close>, finds an own property of an object, and is \<^verbatim>\<open>undefined\<close>
  otherwise. Arrays and strings have a \<^verbatim>\<open>length\<close>; no other inherited property has
  one of the names the source reads.
\<close>

datatype exn = TypeError | FetchError | EngineError | SyntaxError | WriteError

definition own_prop :: "(string \<times> json) list \<Rightarrow> string \<Rightarrow> json" where
  "own_prop kvs k = (case map_of kvs k of Some v \<Rightarrow> v | None \<Rightarrow> JUndef)"

fun get_prop :: "json \<Rightarrow> string \<Rightarrow> exn + json" where
  "get_prop JUndef k = Inl TypeError"
| "get_prop JNull k = Inl TypeError"
| "get_prop (JObj kvs) k = Inr (own_prop kvs k)"
| "get_prop (JArr xs) k =
     Inr (if k = ''length'' then JNum (Fin (of_nat (length xs))) else JUndef)"
| "get_prop (JStr s) k =
     Inr (if k = ''length'' then JNum (Fin (of_nat (length s))) else JUndef)"
| "get_prop (JBool b) k = Inr JUndef"
| "get_prop (JNum n) k = Inr JUndef"

text \<open>\<^verbatim>\<open>Array.isArray\<close> and the indexing \<^verbatim>\<open>inputs[i]\<close> of an array.\<close>

fun isArray :: "json \<Rightarrow> bool" where
  "isArray (JArr xs) = True"
| "isArray v = False"

fun elems :: "json \<Rightarrow> json list" where
  "elems (JArr xs) = xs"
| "elems v = []"

definition at_index :: "json list \<Rightarrow> nat \<Rightarrow> json" where
  "at_index xs i = (if i < length xs then xs ! i else JUndef)"

subsection \<open>Numbers and strings\<close>

definition sq :: char where
  "sq = CHR 0x27"

definition bs :: char where
  "bs = CHR 0x5C"

definition nl :: char where
  "nl = CHR 0x0A"

definition digit_char :: "nat \<Rightarrow> char" where
  "digit_char d = ''0123456789'' ! d"

fun show_nat :: "nat \<Rightarrow> string" where
  "show_nat n = (if n < 10 then [digit_char n] else show_nat (n div 10) @ [digit_char (n mod 10)])"

declare show_nat.simps [simp del]

definition show_int :: "int \<Rightarrow> string" where
  "show_int i = (if i < 0 then CHR ''-'' # show_nat (nat (- i)) else show_nat (nat i))"

text \<open>
  \<^verbatim>\<open>String(x)\<close> of a number. An integer below \<open>2 ^ 53\<close> prints as its decimal
  digits. For every other finite double the runtime prints the shortest decimal that
  reads back as the same double; that printer is not part of the repository and is the
  parameter \<open>R\<close>.
\<close>

definition is_safe_integer :: "rat \<Rightarrow> bool" where
  "is_safe_integer q = (of_int \<lfloor>q\<rfloor> = q \<and> \<bar>q\<bar> < 2 ^ 53)"

fun num_to_string :: "(rat \<Rightarrow> string) \<Rightarrow> jsnum \<Rightarrow> string" where
  "num_to_string R NaN = ''NaN''"
| "num_to_string R PInf = ''Infinity''"
| "num_to_string R NInf = ''-Infinity''"
| "num_to_string R (Fin q) = (if is_safe_integer q then show_int \<lfloor>q\<rfloor> else R q)"

text \<open>\<^verbatim>\<open>Array.prototype.join\<close>.\<close>

fun join_with :: "string \<Rightarrow> string list \<Rightarrow> string" where
  "join_with sep [] = []"
| "join_with sep [x] = x"
| "join_with sep (x # y # ys) = x @ sep @ join_with sep (y # ys)"

text \<open>
  \<^verbatim>\<open>String(x)\<close>, which is also how a template literal renders \<^verbatim>\<open>${x}\<close>: an array
  joins its elements with commas, \<^verbatim>\<open>null\<close> and \<^verbatim>\<open>undefined\<close> elements as empty
  strings.
\<close>

fun to_string :: "(rat \<Rightarrow> string) \<Rightarrow> json \<Rightarrow> string" where
  "to_string R JUndef = ''undefined''"
| "to_string R JNull = ''null''"
| "to_string R (JBool b) = (if b then ''true'' else ''false'')"
| "to_string R (JNum n) = num_to_string R n"
| "to_string R (JStr s) = s"
| "to_string R (JArr xs) =
     join_with '',''
       (map (\<lambda>x. if x = JUndef \<or> x = JNull then [] else to_string R x) xs)"
| "to_string R (JObj kvs) = ''[object Object]''"

text \<open>\<^verbatim>\<open>String.prototype.padStart(2, '0')\<close>.\<close>

definition padStart2 :: "string \<Rightarrow> string" where
  "padStart2 s = replicate (2 - length s) CHR ''0'' @ s"

subsection \<open>Reading numbers from strings\<close>

text \<open>
  \<^verbatim>\<open>Number(s)\<close> and \<^verbatim>\<open>parseFloat(s)\<close> on strings whose code units are below 256.
  Both skip white space; \<^verbatim>\<open>Number\<close> wants the whole string to be a numeric literal
  and reads the empty string as 0, \<^verbatim>\<open>parseFloat\<close> reads the longest decimal prefix.
  The value read is rounded to a double by \<open>to_double\<close>: what is too small becomes 0
  and what is too large an infinity, so that zero, NaN and the infinities are exactly
  the runtime's; the rounding of the 53-bit mantissa is left out.
\<close>

definition is_ws :: "char \<Rightarrow> bool" where
  "is_ws c = (of_char c \<in> {9, 10, 11, 12, 13, 32, 160 :: nat})"

definition trimStart :: "string \<Rightarrow> string" where
  "trimStart s = dropWhile is_ws s"

definition trim :: "string \<Rightarrow> string" where
  "trim s = rev (dropWhile is_ws (rev (dropWhile is_ws s)))"

definition is_digit :: "char \<Rightarrow> bool" where
  "is_digit c = (48 \<le> (of_char c :: nat) \<and> (of_char c :: nat) \<le> 57)"

definition digits_val :: "nat \<Rightarrow> (char \<Rightarrow> nat) \<Rightarrow> string \<Rightarrow> nat" where
  "digits_val base dv ds = foldl (\<lambda>a c. base * a + dv c) 0 ds"

definition dec_digit :: "char \<Rightarrow> nat" where
  "dec_digit c = of_char c - 48"

definition to_double :: "rat \<Rightarrow> jsnum" where
  "to_double q =
     (if \<bar>q\<bar> \<le> 1 / 2 ^ 1075 then Fin 0
      else if 2 ^ 1024 - 2 ^ 970 \<le> \<bar>q\<bar> then (if q < 0 then NInf else PInf)
      else Fin q)"

definition take_sign :: "string \<Rightarrow> int \<times> string" where
  "take_sign s =
     (case s of
        [] \<Rightarrow> (1, [])
      | c # cs \<Rightarrow> if c = CHR ''-'' then (- 1, cs) else if c = CHR ''+'' then (1, cs) else (1, s))"

text \<open>An exponent part is read only when it has a digit; otherwise nothing is consumed.\<close>

definition exponent_part :: "string \<Rightarrow> int \<times> string" where
  "exponent_part s =
     (case s of
        [] \<Rightarrow> (0, [])
      | c # cs \<Rightarrow>
          if c = CHR ''e'' \<or> c = CHR ''E'' then
            (let (sg, r) = take_sign cs; ds = takeWhile is_digit r
             in if ds = [] then (0, s)
                else (sg * int (digits_val 10 dec_digit ds), dropWhile is_digit r))
          else (0, s))"

definition pow10 :: "int \<Rightarrow> rat" where
  "pow10 e = (if 0 \<le> e then 10 ^ nat e else 1 / 10 ^ nat (- e))"

text \<open>
  The longest prefix that is an unsigned decimal literal (\<^verbatim>\<open>12\<close>, \<^verbatim>\<open>12.\<close>,
  \<^verbatim>\<open>12.5\<close>, \<^verbatim>\<open>.5\<close>, each with an optional exponent), with its value and what
  follows it; \<open>None\<close> when there is none.
\<close>

definition unsigned_decimal :: "string \<Rightarrow> (rat \<times> string) option" where
  "unsigned_decimal s =
     (let ip = takeWhile is_digit s;
          r1 = dropWhile is_digit s;
          has_frac = (case r1 of [] \<Rightarrow> False | c # cs \<Rightarrow>
                        c = CHR ''.'' \<and> (ip \<noteq> [] \<or> takeWhile is_digit cs \<noteq> []));
          fp = (if has_frac then takeWhile is_digit (tl r1) else []);
          r2 = (if has_frac then dropWhile is_digit (tl r1) else r1)
      in if ip = [] \<and> \<not> has_frac then None
         else (let (e, r3) = exponent_part r2
               in Some ((of_nat (digits_val 10 dec_digit ip)
                          + of_nat (digits_val 10 dec_digit fp) / 10 ^ length fp) * pow10 e,
                        r3)))"

definition hex_digit :: "char \<Rightarrow> nat option" where
  "hex_digit c =
     (let n = (of_char c :: nat)
      in if 48 \<le> n \<and> n \<le> 57 then Some (n - 48)
         else if 97 \<le> n \<and> n \<le> 102 then Some (n - 87)
         else if 65 \<le> n \<and> n \<le> 70 then Some (n - 55)
         else None)"

definition radix_digits :: "nat \<Rightarrow> string \<Rightarrow> nat option" where
  "radix_digits base ds =
     (if ds \<noteq> [] \<and> (\<forall>c \<in> set ds. case hex_digit c of None \<Rightarrow> False | Some d \<Rightarrow> d < base)
      then Some (digits_val base (\<lambda>c. the (hex_digit c)) ds) else None)"

text \<open>The literals \<^verbatim>\<open>0x..\<close>, \<^verbatim>\<open>0o..\<close> and \<^verbatim>\<open>0b..\<close>, which take no sign.\<close>

definition non_decimal :: "string \<Rightarrow> nat option" where
  "non_decimal s =
     (case s of
        c # x # ds \<Rightarrow>
          if c \<noteq> CHR ''0'' then None
          else if x = CHR ''x'' \<or> x = CHR ''X'' then radix_digits 16 ds
          else if x = CHR ''o'' \<or> x = CHR ''O'' then radix_digits 8 ds
          else if x = CHR ''b'' \<or> x = CHR ''B'' then radix_digits 2 ds
          else None
      | _ \<Rightarrow> None)"

definition signed_inf :: "int \<Rightarrow> jsnum" where
  "signed_inf sg = (if sg < 0 then NInf else PInf)"

definition StringToNumber :: "string \<Rightarrow> jsnum" where
  "StringToNumber s =
     (let t = trim s
      in if t = [] then Fin 0
         else case non_decimal t of
           Some n \<Rightarrow> to_double (of_nat n)
         | None \<Rightarrow>
             (let (sg, r) = take_sign t
              in if r = ''Infinity'' then signed_inf sg
                 else case unsigned_decimal r of
                   Some (v, rest) \<Rightarrow> if rest = [] then to_double (of_int sg * v) else NaN
                 | None \<Rightarrow> NaN))"

definition parseFloat_str :: "string \<Rightarrow> jsnum" where
  "parseFloat_str s =
     (let (sg, r) = take_sign (trimStart s)
      in if take 8 r = ''Infinity'' then signed_inf sg
         else case unsigned_decimal r of
           Some (v, rest) \<Rightarrow> to_double (of_int sg * v)
         | None \<Rightarrow> NaN)"

text \<open>
  \<^verbatim>\<open>Number(x)\<close>: an array or object is first turned into a string. \<^verbatim>\<open>parseFloat(x)\<close>
  turns every argument into a string first.
\<close>

fun to_number :: "(rat \<Rightarrow> string) \<Rightarrow> json \<Rightarrow> jsnum" where
  "to_number R JUndef = NaN"
| "to_number R JNull = Fin 0"
| "to_number R (JBool b) = (if b then Fin 1 else Fin 0)"
| "to_number R (JNum n) = n"
| "to_number R (JStr s) = StringToNumber s"
| "to_number R (JArr xs) = StringToNumber (to_string R (JArr xs))"
| "to_number R (JObj kvs) = StringToNumber (to_string R (JObj kvs))"

definition parseFloat :: "(rat \<Rightarrow> string) \<Rightarrow> json \<Rightarrow> jsnum" where
  "parseFloat R v = parseFloat_str (to_string R v)"

subsection \<open>The arithmetic of the duration formatter\<close>

text \<open>
  \<^verbatim>\<open>Math.round\<close> rounds a tie upwards. \<^verbatim>\<open>x / c\<close> and \<^verbatim>\<open>x % c\<close> are needed for the
  constants 3600 and 60 only, so the divisor is a positive rational; the remainder
  takes the sign of \<^verbatim>\<open>x\<close>.
\<close>

fun Math_round :: "jsnum \<Rightarrow> jsnum" where
  "Math_round (Fin q) = Fin (of_int \<lfloor>q + 1 / 2\<rfloor>)"
| "Math_round n = n"

fun Math_floor :: "jsnum \<Rightarrow> jsnum" where
  "Math_floor (Fin q) = Fin (of_int \<lfloor>q\<rfloor>)"
| "Math_floor n = n"

definition js_trunc :: "rat \<Rightarrow> int" where
  "js_trunc q = (if 0 \<le> q then \<lfloor>q\<rfloor> else - \<lfloor>- q\<rfloor>)"

fun div_by :: "jsnum \<Rightarrow> rat \<Rightarrow> jsnum" where
  "div_by (Fin q) c = Fin (q / c)"
| "div_by n c = n"

fun mod_by :: "jsnum \<Rightarrow> rat \<Rightarrow> jsnum" where
  "mod_by (Fin q) c = Fin (q - c * of_int (js_trunc (q / c)))"
| "mod_by n c = NaN"

section \<open>Requests, responses and the outside world\<close>

text \<open>
  A request: header names are in lower case, as Node stores them; \<open>req_payload\<close> is
  the body as it was sent, and \<open>req_body\<close> is \<^verbatim>\<open>req.body\<close>, which
  \<^verbatim>\<open>express.json\<close> fills in before any other middleware runs. A response is a JSON
  document with a status, a file sent by \<^verbatim>\<open>express.static\<close>, the answer of
  Express's error handler to an error that the body parser raised (it carries the
  error's status), or the framework's own answer when no route of the application
  matches.
\<close>

record request =
  req_method :: string
  req_path :: string
  req_headers :: "string \<Rightarrow> string option"
  req_protocol :: string
  req_payload :: string
  req_body :: json

datatype response = Json nat json | StaticFile string | ParserError nat | NoRoute

text \<open>
  What leaves the process through \<^verbatim>\<open>res.json\<close> is \<^verbatim>\<open>JSON.stringify\<close> of the value:
  NaN and the infinities become \<^verbatim>\<open>null\<close>, and so does \<^verbatim>\<open>undefined\<close> in an array; a
  property that is \<^verbatim>\<open>undefined\<close> is dropped.
\<close>

fun wire :: "json \<Rightarrow> json" where
  "wire (JNum (Fin q)) = JNum (Fin q)"
| "wire (JNum n) = JNull"
| "wire (JArr xs) = JArr (map (\<lambda>x. if x = JUndef then JNull else wire x) xs)"
| "wire (JObj kvs) =
     JObj (map (\<lambda>kv. (fst kv, wire (snd kv))) (filter (\<lambda>kv. snd kv \<noteq> JUndef) kvs))"
| "wire v = v"

definition res_json :: "nat \<Rightarrow> json \<Rightarrow> response" where
  "res_json st v = Json st (wire v)"

definition error_json :: "nat \<Rightarrow> string \<Rightarrow> response" where
  "error_json st msg = res_json st (JObj [(''error'', JStr msg)])"

text \<open>
  Everything the program does not compute itself: the environment, Node's \<^verbatim>\<open>path\<close>,
  \<^verbatim>\<open>URL\<close>, \<^verbatim>\<open>crypto\<close> and \<^verbatim>\<open>JSON\<close> modules, the network, the file system, the two
  engine binaries, \<^verbatim>\<open>express.json\<close> and \<^verbatim>\<open>express.static\<close>. \<open>express_json w req\<close> is
  what \<^verbatim>\<open>express.json({ limit: '20mb' })\<close> makes of the request: the value it stores
  as \<^verbatim>\<open>req.body\<close>, or the status of the error it raises (400 for a payload that does
  not parse, 413 for one over the limit). \<open>randomHex w n\<close> is the \<open>n\<close>-th value of
  \<^verbatim>\<open>crypto.randomBytes(8).toString('hex')\<close>; \<open>URL_pathname\<close> is \<open>None\<close> where
  \<^verbatim>\<open>new URL(url)\<close> throws; \<open>ffprobe_out\<close> is the standard output, \<open>None\<close> when the
  process fails; \<open>serve_static\<close> is \<open>None\<close> when the static middleware passes the
  request on.
\<close>

record world =
  env_API_KEY :: "string option"
  dirname :: string
  path_join :: "string \<Rightarrow> string \<Rightarrow> string"
  path_extname :: "string \<Rightarrow> string"
  URL_pathname :: "json \<Rightarrow> string option"
  randomHex :: "nat \<Rightarrow> string"
  fetch_ok :: "json \<Rightarrow> string \<Rightarrow> bool"
  writeFile_ok :: "string \<Rightarrow> string \<Rightarrow> bool"
  ffmpeg_ok :: "json list \<Rightarrow> bool"
  ffprobe_out :: "string \<Rightarrow> string option"
  JSON_parse :: "string \<Rightarrow> json option"
  Number_toString :: "rat \<Rightarrow> string"
  express_json :: "request \<Rightarrow> nat + json"
  serve_static :: "request \<Rightarrow> response option"

definition API_KEY :: "world \<Rightarrow> string" where
  "API_KEY w =
     (case env_API_KEY w of
        None \<Rightarrow> ''local-dev-key-123''
      | Some k \<Rightarrow> if k = [] then ''local-dev-key-123'' else k)"

definition PUBLIC_DIR :: "world \<Rightarrow> string" where
  "PUBLIC_DIR w = path_join w (dirname w) ''public''"

definition TMP_DIR :: "world \<Rightarrow> string" where
  "TMP_DIR w = path_join w (dirname w) ''tmp''"

subsection \<open>Steps of a job\<close>

text \<open>
  A handler runs its steps in order; each \<^verbatim>\<open>await\<close> either yields a value or throws.
  The state counts the random identifiers drawn so far and records, in order, the
  steps that touch the outside: a download into a temporary file, the writing of the
  manifest, an engine run, and the allocation of a public artifact path.
\<close>

datatype event =
    Download json string bool
  | WriteManifest string string bool
  | RunFfmpeg "json list" bool
  | RunFfprobe string bool
  | AllocPublic string

record state =
  draws :: nat
  trace :: "event list"

type_synonym 'a io = "state \<Rightarrow> (exn + 'a) \<times> state"

definition ret :: "'a \<Rightarrow> 'a io" where
  "ret a s = (Inr a, s)"

definition throw :: "exn \<Rightarrow> 'a io" where
  "throw e s = (Inl e, s)"

definition lift :: "exn + 'a \<Rightarrow> 'a io" where
  "lift r s = (r, s)"

definition bind :: "'a io \<Rightarrow> ('a \<Rightarrow> 'b io) \<Rightarrow> 'b io" where
  "bind m f s = (case m s of (Inl e, s') \<Rightarrow> (Inl e, s') | (Inr a, s') \<Rightarrow> f a s')"

definition emit :: "event \<Rightarrow> unit io" where
  "emit ev s = (Inr (), s\<lparr>trace := trace s @ [ev]\<rparr>)"

definition randomId :: "world \<Rightarrow> string io" where
  "randomId w s = (Inr (randomHex w (draws s)), s\<lparr>draws := Suc (draws s)\<rparr>)"

text \<open>
  The \<^verbatim>\<open>try { ... } catch (err) { res.status(500).json({ error: msg }) }\<close> around every
  handler.
\<close>

definition catch_500 :: "string \<Rightarrow> response io \<Rightarrow> state \<Rightarrow> response \<times> state" where
  "catch_500 msg m s =
     (case m s of (Inr r, s') \<Rightarrow> (r, s') | (Inl e, s') \<Rightarrow> (error_json 500 msg, s'))"

subsection \<open>The helpers of the source\<close>

definition header_val :: "request \<Rightarrow> string \<Rightarrow> json" where
  "header_val req name = (case req_headers req name of None \<Rightarrow> JUndef | Some v \<Rightarrow> JStr v)"

definition getBaseUrl :: "world \<Rightarrow> request \<Rightarrow> string" where
  "getBaseUrl w req =
     (let proto = js_or (header_val req ''x-forwarded-proto'') (JStr (req_protocol req));
          host = js_or (header_val req ''x-forwarded-host'') (header_val req ''host'')
      in to_string (Number_toString w) proto @ ''://'' @ to_string (Number_toString w) host)"

definition runFfmpeg :: "world \<Rightarrow> json list \<Rightarrow> unit io" where
  "runFfmpeg w args =
     bind (emit (RunFfmpeg args (ffmpeg_ok w args)))
       (\<lambda>_. if ffmpeg_ok w args then ret () else throw EngineError)"

text \<open>
  \<^verbatim>\<open>parseFloat(data.format.duration || '0')\<close> on the parsed output of the probe; the
  \<^verbatim>\<open>try\<close> of \<^verbatim>\<open>runFfprobe\<close> turns whatever is thrown into a rejection.
\<close>

definition probe_duration :: "world \<Rightarrow> string \<Rightarrow> exn + jsnum" where
  "probe_duration w out =
     (case JSON_parse w out of
        None \<Rightarrow> Inl SyntaxError
      | Some data \<Rightarrow>
          (case get_prop data ''format'' of
             Inl e \<Rightarrow> Inl e
           | Inr fmt \<Rightarrow>
               (case get_prop fmt ''duration'' of
                  Inl e \<Rightarrow> Inl e
                | Inr d \<Rightarrow> Inr (parseFloat (Number_toString w) (js_or d (JStr ''0''))))))"

definition runFfprobe :: "world \<Rightarrow> string \<Rightarrow> jsnum io" where
  "runFfprobe w filePath =
     (case ffprobe_out w filePath of
        None \<Rightarrow> bind (emit (RunFfprobe filePath False)) (\<lambda>_. throw EngineError)
      | Some out \<Rightarrow> bind (emit (RunFfprobe filePath True)) (\<lambda>_. lift (probe_duration w out)))"

text \<open>
  \<^verbatim>\<open>downloadToTemp\<close>: the identifier is drawn first, then the URL is parsed (which may
  throw before anything is created), then the write stream is opened and the body
  fetched into it.
\<close>

definition downloadToTemp :: "world \<Rightarrow> json \<Rightarrow> string \<Rightarrow> string io" where
  "downloadToTemp w url prefix =
     bind (randomId w) (\<lambda>id.
       case URL_pathname w url of
         None \<Rightarrow> throw TypeError
       | Some pn \<Rightarrow>
           (let ext = (if path_extname w pn = [] then ''.bin'' else path_extname w pn);
                tempPath = path_join w (TMP_DIR w) (prefix @ ''-'' @ id @ ext)
            in bind (emit (Download url tempPath (fetch_ok w url tempPath)))
                 (\<lambda>_. if fetch_ok w url tempPath then ret tempPath else throw FetchError)))"

definition makePublicPath :: "world \<Rightarrow> string \<Rightarrow> string \<Rightarrow> (string \<times> string) io" where
  "makePublicPath w prefix ext =
     bind (randomId w) (\<lambda>id.
       (let fileName = prefix @ ''-'' @ id @ ext
        in bind (emit (AllocPublic (path_join w (PUBLIC_DIR w) fileName)))
             (\<lambda>_. ret (path_join w (PUBLIC_DIR w) fileName, ''/files/'' @ fileName))))"

section \<open>The six jobs\<close>

subsection \<open>Image to video\<close>

text \<open>\<^verbatim>\<open>Number(x) || d\<close>.\<close>

definition number_or :: "jsnum \<Rightarrow> rat \<Rightarrow> jsnum" where
  "number_or n d = (if truthy (JNum n) then n else Fin d)"

definition zoom_filter :: "world \<Rightarrow> jsnum \<Rightarrow> string" where
  "zoom_filter w fps =
     join_with '',''
       [''zoompan=z='' @ [sq] @ ''min(zoom+0.0008,1.3)'' @ [sq] @ '':d=''
          @ num_to_string (Number_toString w) fps
          @ '':x='' @ [sq] @ ''iw/2-(iw/zoom/2)'' @ [sq]
          @ '':y='' @ [sq] @ ''ih/2-(ih/zoom/2)'' @ [sq],
        ''scale=1080:1920'',
        ''framerate='' @ num_to_string (Number_toString w) fps]"

definition image_args :: "world \<Rightarrow> string \<Rightarrow> jsnum \<Rightarrow> jsnum \<Rightarrow> string \<Rightarrow> json list" where
  "image_args w imagePath videoLength fps outPath =
     [JStr ''-loop'', JStr ''1'',
      JStr ''-i'', JStr imagePath,
      JStr ''-t'', JStr (num_to_string (Number_toString w) videoLength),
      JStr ''-vf'', JStr (zoom_filter w fps),
      JStr ''-c:v'', JStr ''libx264'',
      JStr ''-pix_fmt'', JStr ''yuv420p'',
      JStr outPath]"

definition image_convert_video :: "world \<Rightarrow> request \<Rightarrow> state \<Rightarrow> response \<times> state" where
  "image_convert_video w req =
     catch_500 ''Failed to create video from image''
       (bind (lift (get_prop (req_body req) ''image_url'')) (\<lambda>image_url.
        bind (lift (get_prop (req_body req) ''length'')) (\<lambda>len.
        bind (lift (get_prop (req_body req) ''frame_rate'')) (\<lambda>frame_rate.
        bind (lift (get_prop (req_body req) ''zoom_speed'')) (\<lambda>zoom_speed.
        bind (lift (get_prop (req_body req) ''id'')) (\<lambda>id.
          if \<not> truthy image_url then ret (error_json 400 ''image_url is required'')
          else
            (let videoLength = number_or (to_number (Number_toString w) len) 20;
                 fps = number_or (to_number (Number_toString w) frame_rate) 25
             in bind (downloadToTemp w image_url ''image'') (\<lambda>imagePath.
                bind (makePublicPath w ''scene'' ''.mp4'') (\<lambda>(outPath, relPath).
                bind (runFfmpeg w (image_args w imagePath videoLength fps outPath)) (\<lambda>_.
                  ret (res_json 200
                    (JObj [(''response'', JStr (getBaseUrl w req @ relPath)),
                           (''id'', js_or id JNull)]))))))))))))"

subsection \<open>Media metadata\<close>

definition format_duration :: "world \<Rightarrow> jsnum \<Rightarrow> string" where
  "format_duration w duration =
     (let totalSeconds = Math_round duration;
          h = padStart2 (num_to_string (Number_toString w) (Math_floor (div_by totalSeconds 3600)));
          m = padStart2 (num_to_string (Number_toString w)
                (Math_floor (div_by (mod_by totalSeconds 3600) 60)));
          s = padStart2 (num_to_string (Number_toString w) (mod_by totalSeconds 60))
      in h @ '':'' @ m @ '':'' @ s)"

definition metadata_response :: "world \<Rightarrow> jsnum \<Rightarrow> response" where
  "metadata_response w duration =
     res_json 200
       (JObj [(''duration'', JNum duration),
              (''duration_formatted'', JStr (format_duration w duration))])"

definition media_metadata :: "world \<Rightarrow> request \<Rightarrow> state \<Rightarrow> response \<times> state" where
  "media_metadata w req =
     catch_500 ''Failed to get media metadata''
       (bind (lift (get_prop (req_body req) ''media_url'')) (\<lambda>media_url.
          if \<not> truthy media_url then ret (error_json 400 ''media_url is required'')
          else
            bind (downloadToTemp w media_url ''audio-meta'') (\<lambda>audioPath.
            bind (runFfprobe w audioPath) (\<lambda>duration.
              ret (metadata_response w duration)))))"

subsection \<open>Trim\<close>

definition trim_args :: "json \<Rightarrow> json \<Rightarrow> string \<Rightarrow> string \<Rightarrow> json list" where
  "trim_args start end_at videoPath outPath =
     [JStr ''-ss'', js_or start (JStr ''00:00:00'')]
     @ (if truthy end_at then [JStr ''-to'', end_at] else [])
     @ [JStr ''-i'', JStr videoPath, JStr ''-c'', JStr ''copy'', JStr outPath]"

definition video_trim :: "world \<Rightarrow> request \<Rightarrow> state \<Rightarrow> response \<times> state" where
  "video_trim w req =
     catch_500 ''Failed to trim video''
       (bind (lift (get_prop (req_body req) ''video_url'')) (\<lambda>video_url.
        bind (lift (get_prop (req_body req) ''start'')) (\<lambda>start.
        bind (lift (get_prop (req_body req) ''end'')) (\<lambda>end_at.
          if \<not> truthy video_url then ret (error_json 400 ''video_url is required'')
          else
            bind (downloadToTemp w video_url ''trim-in'') (\<lambda>videoPath.
            bind (makePublicPath w ''trim-out'' ''.mp4'') (\<lambda>(outPath, relPath).
            bind (runFfmpeg w (trim_args start end_at videoPath outPath)) (\<lambda>_.
              ret (res_json 200
                (JObj [(''response'', JStr (getBaseUrl w req @ relPath))])))))))))"

subsection \<open>Compose\<close>

definition compose_args :: "string \<Rightarrow> string \<Rightarrow> string \<Rightarrow> json list" where
  "compose_args videoPath audioPath outPath =
     [JStr ''-i'', JStr videoPath,
      JStr ''-i'', JStr audioPath,
      JStr ''-map'', JStr ''0:v:0'',
      JStr ''-map'', JStr ''1:a:0'',
      JStr ''-c:v'', JStr ''copy'',
      JStr ''-c:a'', JStr ''aac'',
      JStr ''-shortest'',
      JStr outPath]"

definition ffmpeg_compose :: "world \<Rightarrow> request \<Rightarrow> state \<Rightarrow> response \<times> state" where
  "ffmpeg_compose w req =
     catch_500 ''Failed to compose audio+video''
       (bind (lift (get_prop (req_body req) ''inputs'')) (\<lambda>inputs.
          if \<not> isArray inputs \<or> length (elems inputs) < 2
          then ret (error_json 400 ''inputs[video, audio] required'')
          else
            bind (lift (get_prop (at_index (elems inputs) 0) ''file_url'')) (\<lambda>videoInput.
            bind (lift (get_prop (at_index (elems inputs) 1) ''file_url'')) (\<lambda>audioInput.
              if \<not> truthy videoInput \<or> \<not> truthy audioInput
              then ret (error_json 400 ''file_url missing in inputs'')
              else
                bind (downloadToTemp w videoInput ''compose-video'') (\<lambda>videoPath.
                bind (downloadToTemp w audioInput ''compose-audio'') (\<lambda>audioPath.
                bind (makePublicPath w ''compose-out'' ''.mp4'') (\<lambda>(outPath, relPath).
                bind (runFfmpeg w (compose_args videoPath audioPath outPath)) (\<lambda>_.
                  ret (res_json 200
                    (JObj [(''response'', JStr (getBaseUrl w req @ relPath))]))))))))))"

subsection \<open>Concatenate\<close>

text \<open>The manifest: \<^verbatim>\<open>p.replace(/'/g, "'\\''")\<close> inside \<^verbatim>\<open>file '...'\<close>, joined by line feeds.\<close>

definition replace_quotes :: "string \<Rightarrow> string" where
  "replace_quotes p = concat (map (\<lambda>c. if c = sq then [sq, bs, sq, sq] else [c]) p)"

definition manifest_line :: "string \<Rightarrow> string" where
  "manifest_line p = ''file '' @ [sq] @ replace_quotes p @ [sq]"

definition listContent :: "string list \<Rightarrow> string" where
  "listContent localPaths = join_with [nl] (map manifest_line localPaths)"

text \<open>
  The loop over \<^verbatim>\<open>video_urls\<close>: \<^verbatim>\<open>item.video_url || item\<close>, skipped when falsy,
  downloaded otherwise.
\<close>

fun fetch_all :: "world \<Rightarrow> json list \<Rightarrow> string list \<Rightarrow> string list io" where
  "fetch_all w [] localPaths s = (Inr localPaths, s)"
| "fetch_all w (item # items) localPaths s =
     (case get_prop item ''video_url'' of
        Inl e \<Rightarrow> (Inl e, s)
      | Inr v \<Rightarrow>
          (let url = js_or v item
           in if \<not> truthy url then fetch_all w items localPaths s
              else (case downloadToTemp w url ''concat'' s of
                      (Inl e, s') \<Rightarrow> (Inl e, s')
                    | (Inr p, s') \<Rightarrow> fetch_all w items (localPaths @ [p]) s')))"

definition writeManifest :: "world \<Rightarrow> string \<Rightarrow> string \<Rightarrow> unit io" where
  "writeManifest w file_path content =
     bind (emit (WriteManifest file_path content (writeFile_ok w file_path content)))
       (\<lambda>_. if writeFile_ok w file_path content then ret () else throw WriteError)"

definition concat_args :: "string \<Rightarrow> string \<Rightarrow> json list" where
  "concat_args tempListPath outPath =
     [JStr ''-f'', JStr ''concat'',
      JStr ''-safe'', JStr ''0'',
      JStr ''-i'', JStr tempListPath,
      JStr ''-c'', JStr ''copy'',
      JStr outPath]"

definition video_concatenate :: "world \<Rightarrow> request \<Rightarrow> state \<Rightarrow> response \<times> state" where
  "video_concatenate w req =
     catch_500 ''Failed to concatenate videos''
       (bind (lift (get_prop (req_body req) ''video_urls'')) (\<lambda>video_urls.
        bind (lift (get_prop (req_body req) ''id'')) (\<lambda>id.
          if \<not> isArray video_urls \<or> length (elems video_urls) = 0
          then ret (error_json 400 ''video_urls must be non-empty array'')
          else
            bind (randomId w) (\<lambda>hex.
            (let tempListPath = path_join w (TMP_DIR w) (''concat-'' @ hex @ ''.txt'')
             in bind (fetch_all w (elems video_urls) []) (\<lambda>localPaths.
                  if length localPaths = 0 then ret (error_json 400 ''No valid video URLs'')
                  else
                    bind (writeManifest w tempListPath (listContent localPaths)) (\<lambda>_.
                    bind (makePublicPath w
                            (if truthy id then ''concat-'' @ to_string (Number_toString w) id
                             else ''concat-out'') ''.mp4'') (\<lambda>(outPath, relPath).
                    bind (runFfmpeg w (concat_args tempListPath outPath)) (\<lambda>_.
                      ret (res_json 200
                        (JObj [(''response'', JStr (getBaseUrl w req @ relPath)),
                               (''id'', js_or id JNull)])))))))))))"

subsection \<open>Caption\<close>

definition video_caption :: "world \<Rightarrow> request \<Rightarrow> state \<Rightarrow> response \<times> state" where
  "video_caption w req =
     catch_500 ''Failed in caption stub''
       (bind (lift (get_prop (req_body req) ''video_url'')) (\<lambda>video_url.
        bind (lift (get_prop (req_body req) ''id'')) (\<lambda>id.
          if \<not> truthy video_url then ret (error_json 400 ''video_url is required'')
          else ret (res_json 200
                 (JObj [(''response'', video_url),
                        (''id'', js_or id JNull),
                        (''note'', JStr ''Captioning stub: extend later if needed.'')])))))"

section \<open>The application\<close>

text \<open>
  The middleware chain in the order of the source: the JSON body parser (the logger
  after it answers nothing), the static files mounted at \<^verbatim>\<open>/files\<close>, then the API
  key check, then the routes. An error of the body parser ends the chain at once.
  Express matches a mount path and a route path without regard to case, and a route
  also with one trailing slash.
\<close>

definition lower :: "char \<Rightarrow> char" where
  "lower c = (if 65 \<le> (of_char c :: nat) \<and> (of_char c :: nat) \<le> 90
              then char_of (of_char c + 32 :: nat) else c)"

definition mounted_files :: "string \<Rightarrow> bool" where
  "mounted_files p =
     (map lower (take 6 p) = ''/files'' \<and> (case drop 6 p of [] \<Rightarrow> True | c # cs \<Rightarrow> c = CHR ''/''))"

definition route_is :: "string \<Rightarrow> string \<Rightarrow> bool" where
  "route_is pattern p =
     (map lower (if 1 < length p \<and> last p = CHR ''/'' then butlast p else p) = pattern)"

definition unauthorized :: "world \<Rightarrow> request \<Rightarrow> bool" where
  "unauthorized w req =
     (\<not> truthy (header_val req ''x-api-key'') \<or> header_val req ''x-api-key'' \<noteq> JStr (API_KEY w))"

definition is_post :: "request \<Rightarrow> string \<Rightarrow> bool" where
  "is_post req pattern = (req_method req = ''POST'' \<and> route_is pattern (req_path req))"

definition routes :: "world \<Rightarrow> request \<Rightarrow> state \<Rightarrow> response \<times> state" where
  "routes w req s =
     (if is_post req ''/v1/image/convert/video'' then image_convert_video w req s
      else if is_post req ''/v1/media/metadata'' then media_metadata w req s
      else if is_post req ''/v1/video/trim'' then video_trim w req s
      else if is_post req ''/v1/ffmpeg/compose'' then ffmpeg_compose w req s
      else if is_post req ''/v1/video/concatenate'' then video_concatenate w req s
      else if is_post req ''/v1/video/caption'' then video_caption w req s
      else if (req_method req = ''GET'' \<or> req_method req = ''HEAD'') \<and> route_is ''/'' (req_path req)
      then (res_json 200 (JObj [(''status'', JStr ''ok''),
                                (''message'', JStr ''Video backend running'')]), s)
      else (NoRoute, s))"

definition api_key_check :: "world \<Rightarrow> request \<Rightarrow> state \<Rightarrow> response \<times> state" where
  "api_key_check w req s =
     (if unauthorized w req then (error_json 401 ''Unauthorized'', s) else routes w req s)"

definition static_files :: "world \<Rightarrow> request \<Rightarrow> state \<Rightarrow> response \<times> state" where
  "static_files w req s =
     (if mounted_files (req_path req) then
        (case serve_static w req of
           Some r \<Rightarrow> (r, s)
         | None \<Rightarrow> api_key_check w req s)
      else api_key_check w req s)"

definition app :: "world \<Rightarrow> request \<Rightarrow> state \<Rightarrow> response \<times> state" where
  "app w req s =
     (case express_json w req of
        Inl st \<Rightarrow> (ParserError st, s)
      | Inr b \<Rightarrow> static_files w (req\<lparr>req_body := b\<rparr>) s)"

section \<open>A concrete world\<close>

text \<open>
  One world in which everything succeeds, to run the handlers on: paths are joined with
  a slash, the extension is what follows the last dot, only strings are URLs, the
  probe reports a duration of 3725.6 seconds, the body parser reads an empty payload
  and \<^verbatim>\<open>{}\<close> as the empty object and takes every other payload for malformed, and
  the static middleware serves every GET under its mount but the one for
  \<^verbatim>\<open>/files/missing.mp4\<close>.
\<close>

definition demo_extname :: "string \<Rightarrow> string" where
  "demo_extname p =
     (let e = rev (takeWhile (\<lambda>c. c \<noteq> CHR ''.'') (rev p))
      in if length e = length p then [] else CHR ''.'' # e)"

definition demo_world :: world where
  "demo_world =
     \<lparr>env_API_KEY = None,
      dirname = ''/app'',
      path_join = (\<lambda>a b. a @ ''/'' @ b),
      path_extname = demo_extname,
      URL_pathname = (\<lambda>v. case v of JStr u \<Rightarrow> Some u | _ \<Rightarrow> None),
      randomHex = (\<lambda>n. ''00000000000000'' @ [digit_char (n div 10 mod 10), digit_char (n mod 10)]),
      fetch_ok = (\<lambda>url file_path. True),
      writeFile_ok = (\<lambda>file_path content. True),
      ffmpeg_ok = (\<lambda>args. True),
      ffprobe_out = (\<lambda>file_path. Some ''format.duration=3725.6''),
      JSON_parse = (\<lambda>out. Some (JObj [(''format'', JObj [(''duration'', JStr ''3725.6'')])])),
      Number_toString = (\<lambda>q. ''?''),
      express_json = (\<lambda>req. if req_payload req = [] \<or> req_payload req = ''{}''
                             then Inr (JObj []) else Inl 400),
      serve_static = (\<lambda>req. if req_method req = ''GET'' \<and> req_path req \<noteq> ''/files/missing.mp4''
                             then Some (StaticFile ''...'') else None)\<rparr>"

definition start :: "nat \<Rightarrow> state" where
  "start n = \<lparr>draws = n, trace = []\<rparr>"

text \<open>
  \<open>post p hs b\<close> is a request as a handler sees it, the body \<open>b\<close> already stored.
  \<open>received m p hs text\<close> is a request as it arrives, its body not yet read.
\<close>

definition post :: "string \<Rightarrow> (string \<times> string) list \<Rightarrow> json \<Rightarrow> request" where
  "post p hs b =
     \<lparr>req_method = ''POST'', req_path = p, req_headers = map_of hs,
      req_protocol = ''http'', req_payload = [], req_body = b\<rparr>"


definition keyed :: "(string \<times> string) list" where
  "keyed = [(''x-api-key'', ''local-dev-key-123''), (''host'', ''10.0.0.5:8080'')]"

definition proxied :: "(string \<times> string) list" where
  "proxied =
     (''x-forwarded-proto'', ''https'') # (''x-forwarded-host'', ''media.example.org'') # keyed"

definition empty_proto :: "(string \<times> string) list" where
  "empty_proto = (''x-forwarded-proto'', []) # keyed"

definition failing_engine :: world where
  "failing_engine = demo_world\<lparr>ffmpeg_ok := (\<lambda>args. False)\<rparr>"

definition negative_probe :: world where
  "negative_probe =
     demo_world\<lparr>JSON_parse :=
       (\<lambda>out. Some (JObj [(''format'', JObj [(''duration'', JStr ''-5'')])]))\<rparr>"

section \<open>Vocabulary of the statements\<close>

text \<open>Whether a step of the trace is an engine run that failed, or one that succeeded.\<close>

fun engine_failed :: "event \<Rightarrow> bool" where
  "engine_failed (RunFfmpeg args ok) = (\<not> ok)"
| "engine_failed (RunFfprobe p ok) = (\<not> ok)"
| "engine_failed ev = False"

fun engine_succeeded :: "event \<Rightarrow> bool" where
  "engine_succeeded (RunFfmpeg args ok) = ok"
| "engine_succeeded (RunFfprobe p ok) = ok"
| "engine_succeeded ev = False"

text \<open>
  What a successful engine run was told to write: the last argument of the transform
  engine.
\<close>

fun engine_output :: "event \<Rightarrow> json option" where
  "engine_output (RunFfmpeg args ok) = (if ok \<and> args \<noteq> [] then Some (last args) else None)"
| "engine_output ev = None"

text \<open>
  A forwarded header that is present and not empty, and the scheme it gives: the
  forwarded protocol if there is one, else the connection's own.
\<close>

definition forwarded :: "request \<Rightarrow> string \<Rightarrow> string option" where
  "forwarded req name =
     (case req_headers req name of None \<Rightarrow> None | Some v \<Rightarrow> if v = [] then None else Some v)"

definition scheme_of :: "request \<Rightarrow> string" where
  "scheme_of req =
     (case forwarded req ''x-forwarded-proto'' of None \<Rightarrow> req_protocol req | Some v \<Rightarrow> v)"


text \<open>
  A duration rounded to whole seconds (a tie upwards), a number below 100 as two decimal
  digits, and the hour field: at least two digits.
\<close>

definition two_digits :: "nat \<Rightarrow> string" where
  "two_digits k = [digit_char (k div 10), digit_char (k mod 10)]"

definition whole_seconds :: "rat \<Rightarrow> nat" where
  "whole_seconds d = nat \<lfloor>d + 1 / 2\<rfloor>"

definition hour_field :: "nat \<Rightarrow> string" where
  "hour_field h = (if h < 10 then CHR ''0'' # show_nat h else show_nat h)"

text \<open>The lines of a text: what \<^verbatim>\<open>split('\n')\<close> gives.\<close>

fun split_lines :: "string \<Rightarrow> string list" where
  "split_lines [] = [[]]"
| "split_lines (c # cs) =
     (if c = nl then [] # split_lines cs
      else (case split_lines cs of [] \<Rightarrow> [[c]] | l # ls \<Rightarrow> (c # l) # ls))"

text \<open>
  How the engine reads a quoted word of a concat script (this reader belongs to the
  engine, not to the repository): outside quotes a backslash makes the next character
  literal and a single quote opens a quoted stretch; inside, everything up to the next
  single quote is literal. \<open>None\<close> for an unclosed quote or a trailing backslash.
\<close>

fun read_word :: "bool \<Rightarrow> string \<Rightarrow> string option" where
  "read_word False [] = Some []"
| "read_word True [] = None"
| "read_word True (c # cs) =
     (if c = sq then read_word False cs else map_option ((#) c) (read_word True cs))"
| "read_word False (c # cs) =
     (if c = sq then read_word True cs
      else if c = bs then (case cs of [] \<Rightarrow> None | d # ds \<Rightarrow> map_option ((#) d) (read_word False ds))
      else map_option ((#) c) (read_word False cs))"

section \<open>Laws of the sequencing\<close>

lemma bind_lift_Inr: "bind (lift (Inr a)) f = f a"
  by (rule ext) (simp add: bind_def lift_def)

lemma bind_lift_Inl: "bind (lift (Inl e)) f = throw e"
  by (rule ext) (simp add: bind_def lift_def throw_def)

lemma bind_ret: "bind (ret a) f = f a"
  by (rule ext) (simp add: bind_def ret_def)

lemma bind_throw: "bind (throw e) f = throw e"
  by (rule ext) (simp add: bind_def throw_def)

lemmas io_laws = bind_lift_Inr bind_lift_Inl bind_ret bind_throw

lemmas io_defs = bind_def ret_def throw_def lift_def emit_def randomId_def catch_500_def

section \<open>The API key gate\<close>




text \<open>
  The configured key is never empty (an empty \<^verbatim>\<open>API_KEY\<close> in the environment falls
  back to the default), so a request carrying exactly the key passes the check.
\<close>

lemma API_KEY_nonempty: "API_KEY w \<noteq> []"
  by (simp add: API_KEY_def split: option.splits)

lemma api_key_accepts:
  "req_headers req ''x-api-key'' = Some (API_KEY w) \<Longrightarrow> api_key_check w req s = routes w req s"
  by (simp add: api_key_check_def unauthorized_def header_val_def API_KEY_nonempty)

section \<open>Image to video: the unused zoom speed\<close>

text \<open>
  C6. Two image-to-video requests that differ only in the \<^verbatim>\<open>zoom_speed\<close> field of
  the body have the same run: the same response and the same steps, the engine's
  argument vector among them.
\<close>

theorem zoom_speed_ignored:
  assumes "req_body r1 = JObj kv1"
    and "\<forall>k. k \<noteq> ''zoom_speed'' \<longrightarrow> map_of kv1 k = map_of kv2 k"
  shows "image_convert_video w (r1\<lparr>req_body := JObj kv2\<rparr>) s = image_convert_video w r1 s"
proof -
  have k: "own_prop kv1 ''image_url'' = own_prop kv2 ''image_url''"
    "own_prop kv1 ''length'' = own_prop kv2 ''length''"
    "own_prop kv1 ''frame_rate'' = own_prop kv2 ''frame_rate''"
    "own_prop kv1 ''id'' = own_prop kv2 ''id''"
    using assms(2) by (simp_all add: own_prop_def)
  have b: "getBaseUrl w (r1\<lparr>req_body := JObj kv2\<rparr>) = getBaseUrl w r1"
    by (simp add: getBaseUrl_def header_val_def)
  show ?thesis
    by (simp add: image_convert_video_def assms(1) k b io_laws)
qed

theorem zoom_speed_ignored_witness:
  "image_convert_video demo_world
     (post ''/v1/image/convert/video'' keyed
        (JObj [(''image_url'', JStr ''http://cdn/a.png''), (''zoom_speed'', JNum (Fin 9))]))
     (start 0)
   = image_convert_video demo_world
       (post ''/v1/image/convert/video'' keyed
          (JObj [(''image_url'', JStr ''http://cdn/a.png''), (''zoom_speed'', JNum (Fin 1))]))
       (start 0)"
  using zoom_speed_ignored
    [where ?r1.0 = "post ''/v1/image/convert/video'' keyed
          (JObj [(''image_url'', JStr ''http://cdn/a.png''), (''zoom_speed'', JNum (Fin 1))])"
      and ?kv1.0 = "[(''image_url'', JStr ''http://cdn/a.png''), (''zoom_speed'', JNum (Fin 1))]"
      and ?kv2.0 = "[(''image_url'', JStr ''http://cdn/a.png''), (''zoom_speed'', JNum (Fin 9))]"
      and w = demo_world and s = "start 0"]
  by (simp add: post_def)

section \<open>How the helpers run\<close>

lemma downloadToTemp_run:
  "downloadToTemp w url prefix s =
     (case URL_pathname w url of
        None \<Rightarrow> (Inl TypeError, s\<lparr>draws := Suc (draws s)\<rparr>)
      | Some pn \<Rightarrow>
          (let tempPath = path_join w (TMP_DIR w)
                 (prefix @ ''-'' @ randomHex w (draws s)
                    @ (if path_extname w pn = [] then ''.bin'' else path_extname w pn))
           in (if fetch_ok w url tempPath then Inr tempPath else Inl FetchError,
               s\<lparr>draws := Suc (draws s),
                 trace := trace s @ [Download url tempPath (fetch_ok w url tempPath)]\<rparr>)))"
  by (simp add: downloadToTemp_def io_defs Let_def split: option.splits)

lemma makePublicPath_run:
  "makePublicPath w prefix ext s =
     (Inr (path_join w (PUBLIC_DIR w) (prefix @ ''-'' @ randomHex w (draws s) @ ext),
           ''/files/'' @ prefix @ ''-'' @ randomHex w (draws s) @ ext),
      s\<lparr>draws := Suc (draws s),
        trace := trace s @ [AllocPublic (path_join w (PUBLIC_DIR w)
                   (prefix @ ''-'' @ randomHex w (draws s) @ ext))]\<rparr>)"
  by (simp add: makePublicPath_def io_defs Let_def)

lemma runFfmpeg_run:
  "runFfmpeg w args s =
     (if ffmpeg_ok w args then Inr () else Inl EngineError,
      s\<lparr>trace := trace s @ [RunFfmpeg args (ffmpeg_ok w args)]\<rparr>)"
  by (simp add: runFfmpeg_def io_defs)

lemma runFfprobe_run:
  "runFfprobe w filePath s =
     (case ffprobe_out w filePath of
        None \<Rightarrow> (Inl EngineError, s\<lparr>trace := trace s @ [RunFfprobe filePath False]\<rparr>)
      | Some out \<Rightarrow> (probe_duration w out, s\<lparr>trace := trace s @ [RunFfprobe filePath True]\<rparr>))"
  by (simp add: runFfprobe_def io_defs split: option.splits)

lemma writeManifest_run:
  "writeManifest w p c s =
     (if writeFile_ok w p c then Inr () else Inl WriteError,
      s\<lparr>trace := trace s @ [WriteManifest p c (writeFile_ok w p c)]\<rparr>)"
  by (simp add: writeManifest_def io_defs)

lemmas run_simps = downloadToTemp_run makePublicPath_run runFfmpeg_run runFfprobe_run
  writeManifest_run

lemmas handler_defs = bind_def lift_def ret_def catch_500_def randomId_def start_def Let_def
  error_json_def res_json_def

lemmas demo_defs = post_def keyed_def demo_world_def
  demo_extname_def TMP_DIR_def PUBLIC_DIR_def digit_char_def js_or_def header_val_def
  getBaseUrl_def own_prop_def

section \<open>Validation comes before any step\<close>

text \<open>
  The checks that every handler makes first. When the body is an object and the
  required field is left out or falsy, the answer is 400 and the state is as it was:
  nothing was drawn, no temporary file fetched, no manifest written, no engine run and
  no public path allocated. For Compose that covers \<^verbatim>\<open>inputs\<close> that is no array or
  has fewer than two entries, and two entries whose \<^verbatim>\<open>file_url\<close> can be read and
  one of which is left out or falsy; for Concatenate, \<^verbatim>\<open>video_urls\<close> that is no
  array or is empty.
\<close>

lemma validation_answers_400:
  assumes "req_body req = JObj kvs"
  shows
    "(\<not> truthy (own_prop kvs ''image_url'') \<longrightarrow>
        image_convert_video w req s
          = (Json 400 (JObj [(''error'', JStr ''image_url is required'')]), s))
     \<and> (\<not> truthy (own_prop kvs ''media_url'') \<longrightarrow>
        media_metadata w req s
          = (Json 400 (JObj [(''error'', JStr ''media_url is required'')]), s))
     \<and> (\<not> truthy (own_prop kvs ''video_url'') \<longrightarrow>
        video_trim w req s
          = (Json 400 (JObj [(''error'', JStr ''video_url is required'')]), s))
     \<and> (\<not> isArray (own_prop kvs ''inputs'') \<or> length (elems (own_prop kvs ''inputs'')) < 2 \<longrightarrow>
        ffmpeg_compose w req s
          = (Json 400 (JObj [(''error'', JStr ''inputs[video, audio] required'')]), s))
     \<and> (own_prop kvs ''inputs'' = JArr (e0 # e1 # others)
          \<and> get_prop e0 ''file_url'' = Inr v0 \<and> get_prop e1 ''file_url'' = Inr v1
          \<and> (\<not> truthy v0 \<or> \<not> truthy v1) \<longrightarrow>
        ffmpeg_compose w req s
          = (Json 400 (JObj [(''error'', JStr ''file_url missing in inputs'')]), s))
     \<and> (\<not> isArray (own_prop kvs ''video_urls'')
          \<or> length (elems (own_prop kvs ''video_urls'')) = 0 \<longrightarrow>
        video_concatenate w req s
          = (Json 400 (JObj [(''error'', JStr ''video_urls must be non-empty array'')]), s))
     \<and> (\<not> truthy (own_prop kvs ''video_url'') \<longrightarrow>
        video_caption w req s
          = (Json 400 (JObj [(''error'', JStr ''video_url is required'')]), s))"
proof -
  have 1: "\<not> truthy (own_prop kvs ''image_url'') \<longrightarrow>
        image_convert_video w req s
          = (Json 400 (JObj [(''error'', JStr ''image_url is required'')]), s)"
    by (simp add: image_convert_video_def assms io_laws catch_500_def ret_def
        error_json_def res_json_def)
  have 2: "\<not> truthy (own_prop kvs ''media_url'') \<longrightarrow>
        media_metadata w req s
          = (Json 400 (JObj [(''error'', JStr ''media_url is required'')]), s)"
    by (simp add: media_metadata_def assms io_laws catch_500_def ret_def
        error_json_def res_json_def)
  have 3: "\<not> truthy (own_prop kvs ''video_url'') \<longrightarrow>
        video_trim w req s
          = (Json 400 (JObj [(''error'', JStr ''video_url is required'')]), s)"
    by (simp add: video_trim_def assms io_laws catch_500_def ret_def
        error_json_def res_json_def)
  have 4: "\<not> isArray (own_prop kvs ''inputs'') \<or> length (elems (own_prop kvs ''inputs'')) < 2 \<longrightarrow>
        ffmpeg_compose w req s
          = (Json 400 (JObj [(''error'', JStr ''inputs[video, audio] required'')]), s)"
    by (auto simp: ffmpeg_compose_def assms io_laws catch_500_def ret_def
        error_json_def res_json_def)
  have 5: "own_prop kvs ''inputs'' = JArr (e0 # e1 # others)
          \<and> get_prop e0 ''file_url'' = Inr v0 \<and> get_prop e1 ''file_url'' = Inr v1
          \<and> (\<not> truthy v0 \<or> \<not> truthy v1) \<longrightarrow>
        ffmpeg_compose w req s
          = (Json 400 (JObj [(''error'', JStr ''file_url missing in inputs'')]), s)"
    by (auto simp: ffmpeg_compose_def assms io_laws catch_500_def ret_def
        error_json_def res_json_def at_index_def)
  have 6: "\<not> isArray (own_prop kvs ''video_urls'')
          \<or> length (elems (own_prop kvs ''video_urls'')) = 0 \<longrightarrow>
        video_concatenate w req s
          = (Json 400 (JObj [(''error'', JStr ''video_urls must be non-empty array'')]), s)"
    by (auto simp: video_concatenate_def assms io_laws catch_500_def ret_def
        error_json_def res_json_def)
  have 7: "\<not> truthy (own_prop kvs ''video_url'') \<longrightarrow>
        video_caption w req s
          = (Json 400 (JObj [(''error'', JStr ''video_url is required'')]), s)"
    by (simp add: video_caption_def assms io_laws catch_500_def ret_def
        error_json_def res_json_def)
  from 1 2 3 4 5 6 7 show ?thesis by blast
qed

text \<open>
  C4. The validation of Compose reads \<^verbatim>\<open>file_url\<close> from both entries before it
  checks either, and reading a property of \<^verbatim>\<open>null\<close> throws: when the second entry
  is null, and so has no \<^verbatim>\<open>file_url\<close>, the answer is 500 and not 400, in every world
  and state. Nothing has been fetched or allocated at that point.
\<close>

theorem compose_null_audio_input_is_500:
  "ffmpeg_compose w
     (post ''/v1/ffmpeg/compose'' keyed
        (JObj [(''inputs'', JArr [JObj [(''file_url'', JStr ''http://cdn/clip.mp4'')], JNull])]))
     s
   = (Json 500 (JObj [(''error'', JStr ''Failed to compose audio+video'')]), s)"
  by (simp add: ffmpeg_compose_def post_def own_prop_def at_index_def io_laws catch_500_def
      throw_def error_json_def res_json_def)

theorem compose_null_audio_input_is_500_witness:
  "fst (ffmpeg_compose demo_world
     (post ''/v1/ffmpeg/compose'' keyed
        (JObj [(''inputs'', JArr [JObj [(''file_url'', JStr ''http://cdn/clip.mp4'')], JNull])]))
     (start 0))
   = Json 500 (JObj [(''error'', JStr ''Failed to compose audio+video'')])"
  using compose_null_audio_input_is_500 [of demo_world "start 0"] by simp

section \<open>A failed engine run\<close>

lemma image_engine:
  "((\<exists>ev \<in> set (trace (snd (image_convert_video w req (start n)))). engine_failed ev)
      \<longrightarrow> fst (image_convert_video w req (start n))
            = Json 500 (JObj [(''error'', JStr ''Failed to create video from image'')]))
   \<and> (\<forall>b. fst (image_convert_video w req (start n)) = Json 200 b
      \<longrightarrow> trace (snd (image_convert_video w req (start n))) \<noteq> []
          \<and> engine_succeeded (last (trace (snd (image_convert_video w req (start n))))))"
  by (auto simp: image_convert_video_def handler_defs run_simps
      split: sum.splits option.splits if_splits prod.splits)

lemma trim_engine:
  "((\<exists>ev \<in> set (trace (snd (video_trim w req (start n)))). engine_failed ev)
      \<longrightarrow> fst (video_trim w req (start n))
            = Json 500 (JObj [(''error'', JStr ''Failed to trim video'')]))
   \<and> (\<forall>b. fst (video_trim w req (start n)) = Json 200 b
      \<longrightarrow> trace (snd (video_trim w req (start n))) \<noteq> []
          \<and> engine_succeeded (last (trace (snd (video_trim w req (start n))))))"
  by (auto simp: video_trim_def handler_defs run_simps
      split: sum.splits option.splits if_splits prod.splits)

lemma compose_engine:
  "((\<exists>ev \<in> set (trace (snd (ffmpeg_compose w req (start n)))). engine_failed ev)
      \<longrightarrow> fst (ffmpeg_compose w req (start n))
            = Json 500 (JObj [(''error'', JStr ''Failed to compose audio+video'')]))
   \<and> (\<forall>b. fst (ffmpeg_compose w req (start n)) = Json 200 b
      \<longrightarrow> trace (snd (ffmpeg_compose w req (start n))) \<noteq> []
          \<and> engine_succeeded (last (trace (snd (ffmpeg_compose w req (start n))))))"
  by (auto simp: ffmpeg_compose_def handler_defs run_simps
      split: sum.splits option.splits if_splits prod.splits)

lemma metadata_engine:
  "(\<exists>ev \<in> set (trace (snd (media_metadata w req (start n)))). engine_failed ev)
      \<longrightarrow> fst (media_metadata w req (start n))
            = Json 500 (JObj [(''error'', JStr ''Failed to get media metadata'')])"
  by (auto simp: media_metadata_def handler_defs run_simps
      split: sum.splits option.splits if_splits prod.splits)

text \<open>The loop of the concatenation adds downloads to the trace and nothing else.\<close>

lemma fetch_all_trace:
  "fetch_all w items acc s = (r, s') \<Longrightarrow>
     \<exists>evs. trace s' = trace s @ evs \<and> (\<forall>e \<in> set evs. \<exists>u p ok. e = Download u p ok)"
proof (induction items arbitrary: acc s)
  case Nil
  then show ?case by simp
next
  case (Cons item items)
  show ?case
  proof (cases "get_prop item ''video_url''")
    case (Inl e)
    with Cons.prems show ?thesis by simp
  next
    case v: (Inr v)
    show ?thesis
    proof (cases "truthy (js_or v item)")
      case False
      with Cons.prems v have "fetch_all w items acc s = (r, s')" by simp
      from Cons.IH [OF this] show ?thesis .
    next
      case True
      obtain d s1 where d: "downloadToTemp w (js_or v item) ''concat'' s = (d, s1)"
        by (cases "downloadToTemp w (js_or v item) ''concat'' s")
      then have "\<exists>evs. trace s1 = trace s @ evs \<and> (\<forall>e \<in> set evs. \<exists>u p ok. e = Download u p ok)"
        by (auto simp: downloadToTemp_run Let_def split: option.splits)
      then obtain evs1 where t1: "trace s1 = trace s @ evs1"
        "\<forall>e \<in> set evs1. \<exists>u p ok. e = Download u p ok" by blast
      show ?thesis
      proof (cases d)
        case (Inl e)
        with Cons.prems v True d have "s' = s1" by simp
        with t1 show ?thesis by blast
      next
        case (Inr p)
        with Cons.prems v True d
        have "fetch_all w items (acc @ [p]) s1 = (r, s')" by simp
        from Cons.IH [OF this] obtain evs2 where
          "trace s' = trace s1 @ evs2" "\<forall>e \<in> set evs2. \<exists>u p ok. e = Download u p ok" by blast
        with t1 have "trace s' = trace s @ (evs1 @ evs2)
            \<and> (\<forall>e \<in> set (evs1 @ evs2). \<exists>u p ok. e = Download u p ok)" by auto
        then show ?thesis by blast
      qed
    qed
  qed
qed

lemma fetch_all_no_engine:
  assumes "fetch_all w items acc s = (r, s')" and "trace s = []"
  shows "\<forall>e \<in> set (trace s'). \<not> engine_failed e"
  using fetch_all_trace [OF assms(1)] assms(2) by auto

lemma concat_engine:
  "((\<exists>ev \<in> set (trace (snd (video_concatenate w req (start n)))). engine_failed ev)
      \<longrightarrow> fst (video_concatenate w req (start n))
            = Json 500 (JObj [(''error'', JStr ''Failed to concatenate videos'')]))
   \<and> (\<forall>b. fst (video_concatenate w req (start n)) = Json 200 b
      \<longrightarrow> trace (snd (video_concatenate w req (start n))) \<noteq> []
          \<and> engine_succeeded (last (trace (snd (video_concatenate w req (start n))))))"
proof -
  obtain r s' where f:
    "fetch_all w (elems (case get_prop (req_body req) ''video_urls'' of Inr v \<Rightarrow> v | Inl e \<Rightarrow> JUndef))
       [] \<lparr>draws = Suc n, trace = []\<rparr> = (r, s')"
    by (cases "fetch_all w
        (elems (case get_prop (req_body req) ''video_urls'' of Inr v \<Rightarrow> v | Inl e \<Rightarrow> JUndef))
        [] \<lparr>draws = Suc n, trace = []\<rparr>")
  have ne: "\<forall>e \<in> set (trace s'). \<not> engine_failed e"
    using fetch_all_no_engine [OF f] by simp
  show ?thesis
    using f ne
    by (auto simp: video_concatenate_def handler_defs run_simps
        split: sum.splits option.splits if_splits)
qed

text \<open>
  C7. Whenever the trace of a job holds a failed engine run (the transform engine, or
  the probe for the metadata job), the response is 500 with the job's fixed message:
  an object with the one field \<^verbatim>\<open>error\<close>, no artifact URL and no error code. And a
  publishing job answers 200 only when the last step of its trace is an engine run
  that succeeded.
\<close>

theorem engine_failure_is_500:
  "((\<exists>ev \<in> set (trace (snd (image_convert_video w req (start n)))). engine_failed ev)
      \<longrightarrow> fst (image_convert_video w req (start n))
            = Json 500 (JObj [(''error'', JStr ''Failed to create video from image'')]))
   \<and> ((\<exists>ev \<in> set (trace (snd (media_metadata w req (start n)))). engine_failed ev)
      \<longrightarrow> fst (media_metadata w req (start n))
            = Json 500 (JObj [(''error'', JStr ''Failed to get media metadata'')]))
   \<and> ((\<exists>ev \<in> set (trace (snd (video_trim w req (start n)))). engine_failed ev)
      \<longrightarrow> fst (video_trim w req (start n))
            = Json 500 (JObj [(''error'', JStr ''Failed to trim video'')]))
   \<and> ((\<exists>ev \<in> set (trace (snd (ffmpeg_compose w req (start n)))). engine_failed ev)
      \<longrightarrow> fst (ffmpeg_compose w req (start n))
            = Json 500 (JObj [(''error'', JStr ''Failed to compose audio+video'')]))
   \<and> ((\<exists>ev \<in> set (trace (snd (video_concatenate w req (start n)))). engine_failed ev)
      \<longrightarrow> fst (video_concatenate w req (start n))
            = Json 500 (JObj [(''error'', JStr ''Failed to concatenate videos'')]))
   \<and> (\<forall>h \<in> {image_convert_video, video_trim, ffmpeg_compose, video_concatenate}. \<forall>b.
        fst (h w req (start n)) = Json 200 b
        \<longrightarrow> trace (snd (h w req (start n))) \<noteq> []
            \<and> engine_succeeded (last (trace (snd (h w req (start n))))))"
  using image_engine [of w req n] metadata_engine [of w req n] trim_engine [of w req n]
    compose_engine [of w req n] concat_engine [of w req n]
  by blast

theorem engine_failure_is_500_witness:
  "(\<exists>ev \<in> set (trace (snd (image_convert_video failing_engine
        (post ''/v1/image/convert/video'' keyed (JObj [(''image_url'', JStr ''http://cdn/a.png'')]))
        (start 0)))). engine_failed ev)
   \<and> fst (image_convert_video failing_engine
        (post ''/v1/image/convert/video'' keyed (JObj [(''image_url'', JStr ''http://cdn/a.png'')]))
        (start 0))
      = Json 500 (JObj [(''error'', JStr ''Failed to create video from image'')])
   \<and> fst (video_trim demo_world
        (post ''/v1/video/trim'' keyed (JObj [(''video_url'', JStr ''http://cdn/a.mp4'')]))
        (start 0))
      = Json 200 (JObj [(''response'',
          JStr ''http://10.0.0.5:8080/files/trim-out-0000000000000001.mp4'')])
   \<and> engine_succeeded (last (trace (snd (video_trim demo_world
        (post ''/v1/video/trim'' keyed (JObj [(''video_url'', JStr ''http://cdn/a.mp4'')]))
        (start 0)))))"
proof -
  have f: "\<exists>ev \<in> set (trace (snd (image_convert_video failing_engine
        (post ''/v1/image/convert/video'' keyed (JObj [(''image_url'', JStr ''http://cdn/a.png'')]))
        (start 0)))). engine_failed ev"
    by (simp add: image_convert_video_def handler_defs run_simps demo_defs failing_engine_def)
  have g: "fst (video_trim demo_world
        (post ''/v1/video/trim'' keyed (JObj [(''video_url'', JStr ''http://cdn/a.mp4'')]))
        (start 0))
      = Json 200 (JObj [(''response'',
          JStr ''http://10.0.0.5:8080/files/trim-out-0000000000000001.mp4'')])"
    by (simp add: video_trim_def handler_defs run_simps demo_defs)
  show ?thesis
    using f g engine_failure_is_500 [where w = failing_engine and n = 0
        and req = "post ''/v1/image/convert/video'' keyed (JObj [(''image_url'', JStr ''http://cdn/a.png'')])"]
      engine_failure_is_500 [where w = demo_world and n = 0
        and req = "post ''/v1/video/trim'' keyed (JObj [(''video_url'', JStr ''http://cdn/a.mp4'')])"]
    by blast
qed

section \<open>Entries that are null\<close>

text \<open>
  C8. Compose validates \<^verbatim>\<open>file_url\<close> only after reading it from both entries, and
  reading a property of \<^verbatim>\<open>null\<close> throws: with \<^verbatim>\<open>inputs[0]\<close> null the answer is
  500, not 400, in every world and state. With two objects as entries the answer is
  400.
\<close>

theorem compose_null_input_is_500:
  "ffmpeg_compose w
     (post ''/v1/ffmpeg/compose'' keyed
        (JObj [(''inputs'', JArr [JNull, JObj [(''file_url'', JStr ''http://cdn/voice.mp3'')]])]))
     s
   = (Json 500 (JObj [(''error'', JStr ''Failed to compose audio+video'')]), s)"
  by (simp add: ffmpeg_compose_def post_def own_prop_def at_index_def io_laws catch_500_def
      throw_def error_json_def res_json_def)

theorem compose_null_input_is_500_witness:
  "fst (ffmpeg_compose demo_world
     (post ''/v1/ffmpeg/compose'' keyed
        (JObj [(''inputs'', JArr [JNull, JObj [(''file_url'', JStr ''http://cdn/voice.mp3'')]])]))
     (start 0))
   = Json 500 (JObj [(''error'', JStr ''Failed to compose audio+video'')])"
  using compose_null_input_is_500 [of demo_world "start 0"] by simp

text \<open>
  C1. The loop of Concatenate skips an entry only after reading its \<^verbatim>\<open>video_url\<close>,
  which throws on \<^verbatim>\<open>null\<close>: a null entry beside a good URL fails the job with 500,
  before anything is fetched.
\<close>

theorem concatenate_null_entry_is_500:
  "video_concatenate w
     (post ''/v1/video/concatenate'' keyed
        (JObj [(''video_urls'', JArr [JNull, JStr ''http://cdn/scene1.mp4''])]))
     (start n)
   = (Json 500 (JObj [(''error'', JStr ''Failed to concatenate videos'')]),
      \<lparr>draws = Suc n, trace = []\<rparr>)"
  by (simp add: video_concatenate_def post_def own_prop_def handler_defs)

theorem concatenate_null_entry_is_500_witness:
  "fst (video_concatenate demo_world
     (post ''/v1/video/concatenate'' keyed
        (JObj [(''video_urls'', JArr [JNull, JStr ''http://cdn/scene1.mp4''])]))
     (start 0))
   = Json 500 (JObj [(''error'', JStr ''Failed to concatenate videos'')])"
  using concatenate_null_entry_is_500 [of demo_world 0] by simp

section \<open>The published URL\<close>

lemma getBaseUrl_forwarded_host:
  "forwarded req ''x-forwarded-host'' = Some v \<Longrightarrow> getBaseUrl w req = scheme_of req @ ''://'' @ v"
  by (auto simp: getBaseUrl_def js_or_def header_val_def forwarded_def scheme_of_def
      split: option.splits if_splits)

lemma getBaseUrl_host:
  "forwarded req ''x-forwarded-host'' = None \<Longrightarrow> req_headers req ''host'' = Some h \<Longrightarrow>
     getBaseUrl w req = scheme_of req @ ''://'' @ h"
  by (auto simp: getBaseUrl_def js_or_def header_val_def forwarded_def scheme_of_def
      split: option.splits if_splits)

lemma get_prop_total:
  "body \<noteq> JUndef \<Longrightarrow> body \<noteq> JNull \<Longrightarrow> \<exists>v. get_prop body k = Inr v"
  by (cases body) simp_all

lemma get_prop_fails:
  "body = JUndef \<or> body = JNull \<Longrightarrow> get_prop body k = Inl TypeError"
  by auto

lemma image_publishes:
  assumes "fst (image_convert_video w req (start n)) = Json 200 b"
  shows "get_prop b ''response''
       = Inr (JStr (getBaseUrl w req @ ''/files/'' @ ''scene-'' @ randomHex w (Suc n) @ ''.mp4''))
     \<and> AllocPublic (path_join w (PUBLIC_DIR w) (''scene-'' @ randomHex w (Suc n) @ ''.mp4''))
         \<in> set (trace (snd (image_convert_video w req (start n))))
     \<and> engine_output (last (trace (snd (image_convert_video w req (start n)))))
         = Some (JStr (path_join w (PUBLIC_DIR w) (''scene-'' @ randomHex w (Suc n) @ ''.mp4'')))"
proof (cases "req_body req = JUndef \<or> req_body req = JNull")
  case True
  then have "fst (image_convert_video w req (start n))
      = Json 500 (JObj [(''error'', JStr ''Failed to create video from image'')])"
    by (simp add: image_convert_video_def get_prop_fails io_laws catch_500_def throw_def
        error_json_def res_json_def)
  with assms show ?thesis by simp
next
  case False
  then obtain u l f z i where g:
    "get_prop (req_body req) ''image_url'' = Inr u"
    "get_prop (req_body req) ''length'' = Inr l"
    "get_prop (req_body req) ''frame_rate'' = Inr f"
    "get_prop (req_body req) ''zoom_speed'' = Inr z"
    "get_prop (req_body req) ''id'' = Inr i"
    using get_prop_total [of "req_body req"] by metis
  show ?thesis
    using assms
    by (auto simp: image_convert_video_def g handler_defs run_simps js_or_def own_prop_def
        image_args_def split: option.splits if_splits)
qed


lemma trim_publishes:
  assumes "fst (video_trim w req (start n)) = Json 200 b"
  shows "get_prop b ''response''
       = Inr (JStr (getBaseUrl w req @ ''/files/'' @ ''trim-out-'' @ randomHex w (Suc n) @ ''.mp4''))
     \<and> AllocPublic (path_join w (PUBLIC_DIR w) (''trim-out-'' @ randomHex w (Suc n) @ ''.mp4''))
         \<in> set (trace (snd (video_trim w req (start n))))
     \<and> engine_output (last (trace (snd (video_trim w req (start n)))))
         = Some (JStr (path_join w (PUBLIC_DIR w) (''trim-out-'' @ randomHex w (Suc n) @ ''.mp4'')))"
proof (cases "req_body req = JUndef \<or> req_body req = JNull")
  case True
  then have "fst (video_trim w req (start n))
      = Json 500 (JObj [(''error'', JStr ''Failed to trim video'')])"
    by (simp add: video_trim_def get_prop_fails io_laws catch_500_def throw_def
        error_json_def res_json_def)
  with assms show ?thesis by simp
next
  case False
  then obtain u a e where g:
    "get_prop (req_body req) ''video_url'' = Inr u"
    "get_prop (req_body req) ''start'' = Inr a"
    "get_prop (req_body req) ''end'' = Inr e"
    using get_prop_total [of "req_body req"] by metis
  show ?thesis
    using assms
    by (auto simp: video_trim_def g handler_defs run_simps own_prop_def
        trim_args_def split: option.splits if_splits)
qed



lemma compose_publishes:
  assumes "fst (ffmpeg_compose w req (start n)) = Json 200 b"
  shows "get_prop b ''response''
       = Inr (JStr (getBaseUrl w req @ ''/files/'' @ ''compose-out-'' @ randomHex w (Suc (Suc n))
                @ ''.mp4''))
     \<and> AllocPublic (path_join w (PUBLIC_DIR w)
           (''compose-out-'' @ randomHex w (Suc (Suc n)) @ ''.mp4''))
         \<in> set (trace (snd (ffmpeg_compose w req (start n))))
     \<and> engine_output (last (trace (snd (ffmpeg_compose w req (start n)))))
         = Some (JStr (path_join w (PUBLIC_DIR w)
             (''compose-out-'' @ randomHex w (Suc (Suc n)) @ ''.mp4'')))"
proof (cases "req_body req = JUndef \<or> req_body req = JNull")
  case True
  then have "fst (ffmpeg_compose w req (start n))
      = Json 500 (JObj [(''error'', JStr ''Failed to compose audio+video'')])"
    by (simp add: ffmpeg_compose_def get_prop_fails io_laws catch_500_def throw_def
        error_json_def res_json_def)
  with assms show ?thesis by simp
next
  case False
  then obtain xs where g: "get_prop (req_body req) ''inputs'' = Inr xs"
    using get_prop_total [of "req_body req"] by metis
  show ?thesis
    using assms
    by (auto simp: ffmpeg_compose_def g handler_defs run_simps js_or_def own_prop_def
        compose_args_def split: sum.splits option.splits if_splits)
qed

lemma concat_publishes:
  assumes "fst (video_concatenate w req (start n)) = Json 200 b"
  shows "\<exists>fileName.
     get_prop b ''response'' = Inr (JStr (getBaseUrl w req @ ''/files/'' @ fileName))
     \<and> AllocPublic (path_join w (PUBLIC_DIR w) fileName)
         \<in> set (trace (snd (video_concatenate w req (start n))))
     \<and> engine_output (last (trace (snd (video_concatenate w req (start n)))))
         = Some (JStr (path_join w (PUBLIC_DIR w) fileName))"
proof (cases "req_body req = JUndef \<or> req_body req = JNull")
  case True
  then have "fst (video_concatenate w req (start n))
      = Json 500 (JObj [(''error'', JStr ''Failed to concatenate videos'')])"
    by (simp add: video_concatenate_def get_prop_fails io_laws catch_500_def throw_def
        error_json_def res_json_def)
  with assms show ?thesis by simp
next
  case False
  then obtain us i where g:
    "get_prop (req_body req) ''video_urls'' = Inr us"
    "get_prop (req_body req) ''id'' = Inr i"
    using get_prop_total [of "req_body req"] by metis
  obtain r s' where fa: "fetch_all w (elems us) [] \<lparr>draws = Suc n, trace = []\<rparr> = (r, s')"
    by (cases "fetch_all w (elems us) [] \<lparr>draws = Suc n, trace = []\<rparr>")
  define fileName where "fileName =
    (if truthy i then ''concat-'' @ to_string (Number_toString w) i else ''concat-out'')
      @ ''-'' @ randomHex w (draws s') @ ''.mp4''"
  have "get_prop b ''response'' = Inr (JStr (getBaseUrl w req @ ''/files/'' @ fileName))
     \<and> AllocPublic (path_join w (PUBLIC_DIR w) fileName)
         \<in> set (trace (snd (video_concatenate w req (start n))))
     \<and> engine_output (last (trace (snd (video_concatenate w req (start n)))))
         = Some (JStr (path_join w (PUBLIC_DIR w) fileName))"
    using assms fa
    by (auto simp: video_concatenate_def g handler_defs run_simps js_or_def own_prop_def
        concat_args_def fileName_def split: sum.splits option.splits if_splits)
  then show ?thesis by blast
qed

text \<open>
  C9, amended. The base URL is scheme, \<^verbatim>\<open>://\<close>, host: the scheme is the
  \<^verbatim>\<open>x-forwarded-proto\<close> header when it is there and not empty, else the connection's
  own protocol; the host is the \<^verbatim>\<open>x-forwarded-host\<close> header when it is there and not
  empty, else the \<^verbatim>\<open>Host\<close> header. Every publishing job that answers 200 returns,
  as \<^verbatim>\<open>response\<close>, that base URL followed by the relative path \<^verbatim>\<open>/files/\<close> plus
  file name of the artifact it published: the file whose path in the public directory
  was allocated in this run and was the output argument of the engine run that
  succeeded last.
\<close>

theorem published_url:
  "(\<forall>v. forwarded req ''x-forwarded-host'' = Some v
      \<longrightarrow> getBaseUrl w req = scheme_of req @ ''://'' @ v)
   \<and> (\<forall>h. forwarded req ''x-forwarded-host'' = None \<and> req_headers req ''host'' = Some h
      \<longrightarrow> getBaseUrl w req = scheme_of req @ ''://'' @ h)
   \<and> (\<forall>job \<in> {image_convert_video, video_trim, ffmpeg_compose, video_concatenate}. \<forall>b.
        fst (job w req (start n)) = Json 200 b \<longrightarrow>
        (\<exists>fileName.
           get_prop b ''response'' = Inr (JStr (getBaseUrl w req @ ''/files/'' @ fileName))
           \<and> AllocPublic (path_join w (PUBLIC_DIR w) fileName)
               \<in> set (trace (snd (job w req (start n))))
           \<and> engine_output (last (trace (snd (job w req (start n)))))
               = Some (JStr (path_join w (PUBLIC_DIR w) fileName))))"
proof -
  have 1: "\<forall>b. fst (image_convert_video w req (start n)) = Json 200 b \<longrightarrow>
        (\<exists>fileName.
           get_prop b ''response'' = Inr (JStr (getBaseUrl w req @ ''/files/'' @ fileName))
           \<and> AllocPublic (path_join w (PUBLIC_DIR w) fileName)
               \<in> set (trace (snd (image_convert_video w req (start n))))
           \<and> engine_output (last (trace (snd (image_convert_video w req (start n)))))
               = Some (JStr (path_join w (PUBLIC_DIR w) fileName)))"
    using image_publishes [of w req n] by blast
  have 2: "\<forall>b. fst (video_trim w req (start n)) = Json 200 b \<longrightarrow>
        (\<exists>fileName.
           get_prop b ''response'' = Inr (JStr (getBaseUrl w req @ ''/files/'' @ fileName))
           \<and> AllocPublic (path_join w (PUBLIC_DIR w) fileName)
               \<in> set (trace (snd (video_trim w req (start n))))
           \<and> engine_output (last (trace (snd (video_trim w req (start n)))))
               = Some (JStr (path_join w (PUBLIC_DIR w) fileName)))"
    using trim_publishes [of w req n] by blast
  have 3: "\<forall>b. fst (ffmpeg_compose w req (start n)) = Json 200 b \<longrightarrow>
        (\<exists>fileName.
           get_prop b ''response'' = Inr (JStr (getBaseUrl w req @ ''/files/'' @ fileName))
           \<and> AllocPublic (path_join w (PUBLIC_DIR w) fileName)
               \<in> set (trace (snd (ffmpeg_compose w req (start n))))
           \<and> engine_output (last (trace (snd (ffmpeg_compose w req (start n)))))
               = Some (JStr (path_join w (PUBLIC_DIR w) fileName)))"
    using compose_publishes [of w req n] by blast
  have 4: "\<forall>b. fst (video_concatenate w req (start n)) = Json 200 b \<longrightarrow>
        (\<exists>fileName.
           get_prop b ''response'' = Inr (JStr (getBaseUrl w req @ ''/files/'' @ fileName))
           \<and> AllocPublic (path_join w (PUBLIC_DIR w) fileName)
               \<in> set (trace (snd (video_concatenate w req (start n))))
           \<and> engine_output (last (trace (snd (video_concatenate w req (start n)))))
               = Some (JStr (path_join w (PUBLIC_DIR w) fileName)))"
    using concat_publishes [of w req n] by blast
  from 1 2 3 4 getBaseUrl_forwarded_host [of req _ w] getBaseUrl_host [of req _ w]
  show ?thesis by simp
qed


theorem published_url_witness:
  "forwarded (post ''/v1/video/trim'' proxied (JObj [(''video_url'', JStr ''http://cdn/a.mp4'')]))
       ''x-forwarded-host'' = Some ''media.example.org''
   \<and> getBaseUrl demo_world
        (post ''/v1/video/trim'' proxied (JObj [(''video_url'', JStr ''http://cdn/a.mp4'')]))
     = ''https://media.example.org''
   \<and> getBaseUrl demo_world
        (post ''/v1/video/trim'' keyed (JObj [(''video_url'', JStr ''http://cdn/a.mp4'')]))
     = ''http://10.0.0.5:8080''
   \<and> fst (video_trim demo_world
        (post ''/v1/video/trim'' proxied (JObj [(''video_url'', JStr ''http://cdn/a.mp4'')]))
        (start 0))
     = Json 200 (JObj [(''response'',
         JStr (''https://media.example.org'' @ ''/files/'' @ ''trim-out-0000000000000001.mp4''))])
   \<and> AllocPublic ''/app/public/trim-out-0000000000000001.mp4''
       \<in> set (trace (snd (video_trim demo_world
        (post ''/v1/video/trim'' proxied (JObj [(''video_url'', JStr ''http://cdn/a.mp4'')]))
        (start 0))))
   \<and> engine_output (last (trace (snd (video_trim demo_world
        (post ''/v1/video/trim'' proxied (JObj [(''video_url'', JStr ''http://cdn/a.mp4'')]))
        (start 0)))))
     = Some (JStr ''/app/public/trim-out-0000000000000001.mp4'')"
proof -
  let ?req = "post ''/v1/video/trim'' proxied (JObj [(''video_url'', JStr ''http://cdn/a.mp4'')])"
  let ?b = "JObj [(''response'',
         JStr (''https://media.example.org'' @ ''/files/'' @ ''trim-out-0000000000000001.mp4''))]"
  have ok: "fst (video_trim demo_world ?req (start 0)) = Json 200 ?b"
    by (simp add: video_trim_def handler_defs run_simps demo_defs proxied_def own_prop_def
        js_or_def header_val_def getBaseUrl_def demo_extname_def TMP_DIR_def PUBLIC_DIR_def
        digit_char_def)
  have f: "forwarded ?req ''x-forwarded-host'' = Some ''media.example.org''"
    "forwarded (post ''/v1/video/trim'' keyed (JObj [(''video_url'', JStr ''http://cdn/a.mp4'')]))
       ''x-forwarded-host'' = None"
    "req_headers (post ''/v1/video/trim'' keyed (JObj [(''video_url'', JStr ''http://cdn/a.mp4'')]))
       ''host'' = Some ''10.0.0.5:8080''"
    by (simp_all add: forwarded_def post_def proxied_def keyed_def)
  have c: "scheme_of ?req = ''https''"
    "scheme_of (post ''/v1/video/trim'' keyed (JObj [(''video_url'', JStr ''http://cdn/a.mp4'')]))
      = ''http''"
    by (simp_all add: scheme_of_def forwarded_def post_def proxied_def keyed_def)
  have b1: "getBaseUrl demo_world ?req = ''https://media.example.org''"
    using f(1) c(1) published_url [where w = demo_world and n = 0 and req = ?req]
    by simp
  have b2: "getBaseUrl demo_world
        (post ''/v1/video/trim'' keyed (JObj [(''video_url'', JStr ''http://cdn/a.mp4'')]))
      = ''http://10.0.0.5:8080''"
    using f(2,3) c(2) published_url [where w = demo_world and n = 0
        and req = "post ''/v1/video/trim'' keyed (JObj [(''video_url'', JStr ''http://cdn/a.mp4'')])"]
    by simp
  have "\<exists>fileName.
           get_prop ?b ''response'' = Inr (JStr (getBaseUrl demo_world ?req @ ''/files/'' @ fileName))
           \<and> AllocPublic (path_join demo_world (PUBLIC_DIR demo_world) fileName)
               \<in> set (trace (snd (video_trim demo_world ?req (start 0))))
           \<and> engine_output (last (trace (snd (video_trim demo_world ?req (start 0)))))
               = Some (JStr (path_join demo_world (PUBLIC_DIR demo_world) fileName))"
    using ok published_url [where w = demo_world and n = 0 and req = ?req]
    by blast
  then obtain fileName where
    g: "get_prop ?b ''response'' = Inr (JStr (getBaseUrl demo_world ?req @ ''/files/'' @ fileName))"
    and a: "AllocPublic (path_join demo_world (PUBLIC_DIR demo_world) fileName)
               \<in> set (trace (snd (video_trim demo_world ?req (start 0))))"
    and e: "engine_output (last (trace (snd (video_trim demo_world ?req (start 0)))))
               = Some (JStr (path_join demo_world (PUBLIC_DIR demo_world) fileName))"
    by blast
  from g have n: "fileName = ''trim-out-0000000000000001.mp4''"
    by (simp add: b1 own_prop_def)
  have p: "path_join demo_world (PUBLIC_DIR demo_world) ''trim-out-0000000000000001.mp4''
      = ''/app/public/trim-out-0000000000000001.mp4''"
    by (simp add: demo_world_def PUBLIC_DIR_def)
  from a e show ?thesis
    by (simp only: f(1) b1 b2 ok n p simp_thms)
qed

text \<open>
  C9 as stated fails on a forwarded-protocol header that is present but empty: the
  header is there, and the returned URL still carries the connection's scheme.
\<close>

theorem empty_forwarded_proto_falls_back:
  "req_headers (post ''/v1/video/trim'' empty_proto (JObj [(''video_url'', JStr ''http://cdn/a.mp4'')]))
      ''x-forwarded-proto'' = Some []
   \<and> fst (video_trim demo_world
        (post ''/v1/video/trim'' empty_proto (JObj [(''video_url'', JStr ''http://cdn/a.mp4'')]))
        (start 0))
     = Json 200 (JObj [(''response'',
         JStr ''http://10.0.0.5:8080/files/trim-out-0000000000000001.mp4'')])"
  by (simp add: video_trim_def handler_defs run_simps demo_defs empty_proto_def)

section \<open>Defaults of the image job\<close>








section \<open>The formatted duration\<close>

lemma to_double_exact: "1 \<le> \<bar>q\<bar> \<Longrightarrow> \<bar>q\<bar> \<le> 2 ^ 53 \<Longrightarrow> to_double q = Fin q"
proof -
  assume a: "1 \<le> \<bar>q\<bar>" and b: "\<bar>q\<bar> \<le> 2 ^ 53"
  have "(1::rat) / 2 ^ 1075 < 1" by simp
  with a have 1: "\<not> \<bar>q\<bar> \<le> 1 / 2 ^ 1075" by linarith
  have "(2::rat) ^ 53 < 2 ^ 1024 - 2 ^ 970" by simp
  with b have 2: "\<not> 2 ^ 1024 - 2 ^ 970 \<le> \<bar>q\<bar>" by linarith
  show ?thesis using 1 2 by (simp add: to_double_def)
qed

lemma show_nat_digit: "n < 10 \<Longrightarrow> show_nat n = [digit_char n]"
  by (subst show_nat.simps) simp

lemma show_nat_step: "10 \<le> n \<Longrightarrow> show_nat n = show_nat (n div 10) @ [digit_char (n mod 10)]"
  by (subst show_nat.simps) simp

lemma show_nat_nonempty: "show_nat n \<noteq> []"
  by (subst show_nat.simps) simp

lemma padStart2_two_digits: "k < 100 \<Longrightarrow> padStart2 (show_nat k) = two_digits k"
proof (cases "k < 10")
  case True
  then show ?thesis
    by (simp add: show_nat_digit padStart2_def two_digits_def digit_char_def)
next
  case False
  assume "k < 100"
  with False have "k div 10 < 10" "10 \<le> k" by simp_all
  then show ?thesis
    by (simp add: show_nat_step show_nat_digit padStart2_def two_digits_def)
qed

lemma padStart2_hour_field: "padStart2 (show_nat h) = hour_field h"
proof (cases "h < 10")
  case True
  then show ?thesis by (simp add: show_nat_digit padStart2_def hour_field_def)
next
  case False
  then have "show_nat h = show_nat (h div 10) @ [digit_char (h mod 10)]"
    by (simp add: show_nat_step)
  moreover have "1 \<le> length (show_nat (h div 10))"
    using show_nat_nonempty [of "h div 10"] by (cases "show_nat (h div 10)") simp_all
  ultimately have "2 \<le> length (show_nat h)" by simp
  with False show ?thesis by (simp add: padStart2_def hour_field_def)
qed

lemma num_to_string_nat:
  "int k < 2 ^ 53 \<Longrightarrow> num_to_string R (Fin (of_nat k)) = show_nat k"
proof -
  assume "int k < 2 ^ 53"
  then have "(of_int (int k) :: rat) < of_int (2 ^ 53)" by (simp only: of_int_less_iff)
  then have "(of_nat k :: rat) < 2 ^ 53" by simp
  then show ?thesis by (simp add: is_safe_integer_def show_int_def)
qed

lemma floor_div_by: "Math_floor (div_by (Fin (of_nat k)) (of_nat c)) = Fin (of_nat (k div c))"
proof -
  have "\<lfloor>(of_nat k :: rat) / of_nat c\<rfloor> = int (k div c)"
    by (metis floor_divide_of_nat_eq)
  then show ?thesis by simp
qed

lemma mod_by_nat: "mod_by (Fin (of_nat k)) (of_nat c) = Fin (of_nat (k mod c))"
proof -
  have f: "\<lfloor>(of_nat k :: rat) / of_nat c\<rfloor> = int (k div c)"
    by (metis floor_divide_of_nat_eq)
  have "(of_nat k :: rat) - of_nat c * of_int (int (k div c)) = of_nat (k mod c)"
  proof -
    have "(of_nat (c * (k div c) + k mod c) :: rat)
        = of_nat c * of_nat (k div c) + of_nat (k mod c)"
      by (simp only: of_nat_add of_nat_mult)
    then have "(of_nat k :: rat) = of_nat c * of_nat (k div c) + of_nat (k mod c)"
      by (simp only: mult_div_mod_eq)
    then show ?thesis by simp
  qed
  with f show ?thesis by (simp add: js_trunc_def)
qed

lemma Math_round_nonneg: "0 \<le> d \<Longrightarrow> Math_round (Fin d) = Fin (of_nat (whole_seconds d))"
proof -
  assume "0 \<le> d"
  then have "0 \<le> \<lfloor>d + 1 / 2\<rfloor>" by simp
  then show ?thesis by (simp add: whole_seconds_def)
qed

lemma below_60: "k < 60 \<Longrightarrow> int k < 2 ^ 53"
proof -
  assume "k < 60"
  then have "int k < 60" by simp
  moreover have "(60::int) < 2 ^ 53" by simp
  ultimately show ?thesis by (rule less_trans)
qed

lemma format_duration_nonneg:
  assumes "0 \<le> d" and "int (whole_seconds d) < 2 ^ 53"
  shows "format_duration w (Fin d)
     = hour_field (whole_seconds d div 3600) @ '':''
       @ two_digits (whole_seconds d mod 3600 div 60) @ '':''
       @ two_digits (whole_seconds d mod 60)"
proof -
  define N where "N = whole_seconds d"
  have r: "Math_round (Fin d) = Fin (of_nat N)"
    using Math_round_nonneg [OF assms(1)] by (simp only: N_def)
  have b: "int N < 2 ^ 53" using assms(2) by (simp add: N_def)
  have h: "Math_floor (div_by (Fin (of_nat N)) 3600) = Fin (of_nat (N div 3600))"
    using floor_div_by [of N 3600] by simp
  have m1: "mod_by (Fin (of_nat N)) 3600 = Fin (of_nat (N mod 3600))"
    using mod_by_nat [of N 3600] by simp
  have m: "Math_floor (div_by (Fin (of_nat (N mod 3600))) 60) = Fin (of_nat (N mod 3600 div 60))"
    using floor_div_by [of "N mod 3600" 60] by simp
  have s: "mod_by (Fin (of_nat N)) 60 = Fin (of_nat (N mod 60))"
    using mod_by_nat [of N 60] by simp
  have bh: "int (N div 3600) < 2 ^ 53"
  proof -
    have "N div 3600 \<le> N" by simp
    then have "int (N div 3600) \<le> int N" by (simp only: of_nat_le_iff)
    then show ?thesis using b by (rule le_less_trans)
  qed
  have bm: "int (N mod 3600 div 60) < 2 ^ 53"
    by (rule below_60) simp
  have bs: "int (N mod 60) < 2 ^ 53"
    by (rule below_60) simp
  have pm: "padStart2 (show_nat (N mod 3600 div 60)) = two_digits (N mod 3600 div 60)"
    by (rule padStart2_two_digits) simp
  have ps: "padStart2 (show_nat (N mod 60)) = two_digits (N mod 60)"
    by (rule padStart2_two_digits) simp
  have "format_duration w (Fin d)
      = padStart2 (show_nat (N div 3600)) @ '':''
        @ padStart2 (show_nat (N mod 3600 div 60)) @ '':''
        @ padStart2 (show_nat (N mod 60))"
    unfolding format_duration_def Let_def r h m1 m s
    by (simp only: num_to_string_nat [OF bh] num_to_string_nat [OF bm] num_to_string_nat [OF bs])
  also have "\<dots> = hour_field (N div 3600) @ '':''
        @ two_digits (N mod 3600 div 60) @ '':''
        @ two_digits (N mod 60)"
    by (simp only: pm ps padStart2_hour_field [of "N div 3600"])
  finally show ?thesis
    by (simp only: N_def)
qed


lemma hms_split: "(N::nat) = 3600 * (N div 3600) + 60 * (N mod 3600 div 60) + N mod 60"
proof -
  have a: "N mod 3600 mod 60 = N mod 60" by (simp add: mod_mod_cancel)
  have b: "N mod 3600 = 60 * (N mod 3600 div 60) + N mod 3600 mod 60" by simp
  have c: "N = 3600 * (N div 3600) + N mod 3600" by simp
  from a b c show ?thesis by linarith
qed

lemma metadata_run:
  assumes "req_body req = JObj kvs"
    and "truthy (own_prop kvs ''media_url'')"
    and "downloadToTemp w (own_prop kvs ''media_url'') ''audio-meta'' s = (Inr audioPath, s1)"
    and "runFfprobe w audioPath s1 = (Inr duration, s2)"
  shows "media_metadata w req s = (metadata_response w duration, s2)"
  using assms(2-4)
  by (simp add: media_metadata_def assms(1) io_laws bind_def catch_500_def ret_def)

text \<open>
  C5, amended. When the probe of a metadata job returns a finite duration \<open>d \<ge> 0\<close>
  whose rounding to whole seconds is below \<open>2 ^ 53\<close>, the response is 200 with
  \<^verbatim>\<open>duration\<close> equal to \<open>d\<close> and \<^verbatim>\<open>duration_formatted\<close> equal to
  \<^verbatim>\<open>H:MM:SS\<close> for \<open>d\<close> rounded to the nearest second (a tie upwards): minutes and
  seconds are two digits each and below 60, the hours are the remaining whole hours,
  padded to two digits and not capped.
\<close>

theorem duration_formatted:
  assumes "req_body req = JObj kvs"
    and "truthy (own_prop kvs ''media_url'')"
    and "downloadToTemp w (own_prop kvs ''media_url'') ''audio-meta'' s = (Inr audioPath, s1)"
    and "runFfprobe w audioPath s1 = (Inr (Fin d), s2)"
    and "0 \<le> d"
    and "int (whole_seconds d) < 2 ^ 53"
  shows "media_metadata w req s
     = (Json 200 (JObj [(''duration'', JNum (Fin d)),
          (''duration_formatted'',
           JStr (hour_field (whole_seconds d div 3600) @ '':''
                 @ two_digits (whole_seconds d mod 3600 div 60) @ '':''
                 @ two_digits (whole_seconds d mod 60)))]), s2)
     \<and> whole_seconds d mod 3600 div 60 < 60 \<and> whole_seconds d mod 60 < 60
     \<and> whole_seconds d
         = 3600 * (whole_seconds d div 3600) + 60 * (whole_seconds d mod 3600 div 60)
           + whole_seconds d mod 60"
proof -
  have "media_metadata w req s = (metadata_response w (Fin d), s2)"
    by (rule metadata_run [OF assms(1-4)])
  then have "media_metadata w req s
     = (Json 200 (JObj [(''duration'', JNum (Fin d)),
          (''duration_formatted'',
           JStr (hour_field (whole_seconds d div 3600) @ '':''
                 @ two_digits (whole_seconds d mod 3600 div 60) @ '':''
                 @ two_digits (whole_seconds d mod 60)))]), s2)"
    by (simp add: metadata_response_def res_json_def format_duration_nonneg [OF assms(5,6)])
  moreover have "whole_seconds d mod 3600 div 60 < 60" "whole_seconds d mod 60 < 60"
    by simp_all
  moreover have "whole_seconds d
         = 3600 * (whole_seconds d div 3600) + 60 * (whole_seconds d mod 3600 div 60)
           + whole_seconds d mod 60"
    by (rule hms_split)
  ultimately show ?thesis by blast
qed

lemmas parse_defs = parseFloat_str_def take_sign_def trimStart_def is_ws_def unsigned_decimal_def
  is_digit_def digits_val_def dec_digit_def exponent_part_def pow10_def Let_def

lemma probe_demo: "parseFloat_str ''3725.6'' = Fin (18628 / 5)"
  by (simp add: parse_defs to_double_exact)

lemma probe_negative: "parseFloat_str ''-5'' = Fin (- 5)"
  by (simp add: parse_defs to_double_exact)

theorem duration_formatted_witness:
  "media_metadata demo_world
     (post ''/v1/media/metadata'' keyed (JObj [(''media_url'', JStr ''http://cdn/a.mp3'')]))
     (start 0)
   = (Json 200 (JObj [(''duration'', JNum (Fin (18628 / 5))),
                      (''duration_formatted'', JStr ''01:02:06'')]),
      \<lparr>draws = 1,
        trace = [Download (JStr ''http://cdn/a.mp3'') ''/app/tmp/audio-meta-0000000000000000.mp3'' True,
                 RunFfprobe ''/app/tmp/audio-meta-0000000000000000.mp3'' True]\<rparr>)"
proof -
  have d: "downloadToTemp demo_world
       (own_prop [(''media_url'', JStr ''http://cdn/a.mp3'')] ''media_url'') ''audio-meta'' (start 0)
     = (Inr ''/app/tmp/audio-meta-0000000000000000.mp3'',
        \<lparr>draws = 1, trace = [Download (JStr ''http://cdn/a.mp3'')
            ''/app/tmp/audio-meta-0000000000000000.mp3'' True]\<rparr>)"
    by (simp add: run_simps demo_defs start_def Let_def)
  have p: "runFfprobe demo_world ''/app/tmp/audio-meta-0000000000000000.mp3''
       \<lparr>draws = 1, trace = [Download (JStr ''http://cdn/a.mp3'')
            ''/app/tmp/audio-meta-0000000000000000.mp3'' True]\<rparr>
     = (Inr (Fin (18628 / 5)),
        \<lparr>draws = 1,
          trace = [Download (JStr ''http://cdn/a.mp3'') ''/app/tmp/audio-meta-0000000000000000.mp3'' True,
                   RunFfprobe ''/app/tmp/audio-meta-0000000000000000.mp3'' True]\<rparr>)"
    by (simp add: run_simps demo_defs probe_duration_def parseFloat_def probe_demo)
  have n: "whole_seconds (18628 / 5) = 3726"
  proof -
    have "\<lfloor>(18628 / 5 :: rat) + 1 / 2\<rfloor> = 3726" by (rule floor_unique) simp_all
    then show ?thesis by (simp only: whole_seconds_def)
  qed
  have q: "(0::rat) \<le> 18628 / 5" by simp
  have f: "hour_field (Suc 0) = ''01''" "two_digits 2 = ''02''" "two_digits 6 = ''06''"
    by (simp_all add: hour_field_def two_digits_def digit_char_def show_nat_digit)
  show ?thesis
    using duration_formatted [where w = demo_world and s = "start 0" and d = "18628 / 5"
        and kvs = "[(''media_url'', JStr ''http://cdn/a.mp3'')]"
        and req = "post ''/v1/media/metadata'' keyed (JObj [(''media_url'', JStr ''http://cdn/a.mp3'')])",
        OF _ _ d p q]
    by (simp add: post_def own_prop_def n f)
qed


lemma num_to_string_neg:
  "num_to_string R (Fin (- 1)) = ''-1''" "num_to_string R (Fin (- 5)) = ''-5''"
proof -
  have a: "show_int (- 1) = ''-1''" "show_int (- 5) = ''-5''"
    by (simp_all add: show_int_def show_nat_digit digit_char_def)
  have f: "\<lfloor>- 1 :: rat\<rfloor> = - 1" "\<lfloor>- 5 :: rat\<rfloor> = - 5"
    by (rule floor_unique; simp)+
  show "num_to_string R (Fin (- 1)) = ''-1''" "num_to_string R (Fin (- 5)) = ''-5''"
    by (simp_all add: is_safe_integer_def f a)
qed

lemma format_minus_five: "format_duration w (Fin (- 5)) = ''-1:-1:-5''"
proof -
  have r: "Math_round (Fin (- 5)) = Fin (- 5)"
  proof -
    have "\<lfloor>(- 5 :: rat) + 1 / 2\<rfloor> = - 5" by (rule floor_unique) simp_all
    then show ?thesis by simp
  qed
  have h: "Math_floor (div_by (Fin (- 5)) 3600) = Fin (- 1)"
  proof -
    have "\<lfloor>(- 5 :: rat) / 3600\<rfloor> = - 1" by (rule floor_unique) simp_all
    then show ?thesis by simp
  qed
  have m: "Math_floor (div_by (Fin (- 5)) 60) = Fin (- 1)"
  proof -
    have "\<lfloor>(- 5 :: rat) / 60\<rfloor> = - 1" by (rule floor_unique) simp_all
    then show ?thesis by simp
  qed
  have m1: "mod_by (Fin (- 5)) 3600 = Fin (- 5)"
  proof -
    have "\<lfloor>(5 :: rat) / 3600\<rfloor> = 0" by (rule floor_unique) simp_all
    then show ?thesis by (simp add: js_trunc_def)
  qed
  have s: "mod_by (Fin (- 5)) 60 = Fin (- 5)"
  proof -
    have "\<lfloor>(5 :: rat) / 60\<rfloor> = 0" by (rule floor_unique) simp_all
    then show ?thesis by (simp add: js_trunc_def)
  qed
  show ?thesis
    unfolding format_duration_def Let_def r h m1 m s num_to_string_neg
    by (simp add: padStart2_def)
qed

text \<open>
  C5 as stated fails for a negative duration: a probe output whose duration reads
  \<^verbatim>\<open>-5\<close> is answered with \<^verbatim>\<open>-1:-1:-5\<close>, whose minute and second fields are
  neither padded nor within 00 to 59.
\<close>

theorem negative_duration_fields:
  "fst (media_metadata negative_probe
     (post ''/v1/media/metadata'' keyed (JObj [(''media_url'', JStr ''http://cdn/a.mp3'')]))
     (start 0))
   = Json 200 (JObj [(''duration'', JNum (Fin (- 5))),
                     (''duration_formatted'', JStr ''-1:-1:-5'')])"
proof -
  have d: "downloadToTemp negative_probe
       (own_prop [(''media_url'', JStr ''http://cdn/a.mp3'')] ''media_url'') ''audio-meta'' (start 0)
     = (Inr ''/app/tmp/audio-meta-0000000000000000.mp3'',
        \<lparr>draws = 1, trace = [Download (JStr ''http://cdn/a.mp3'')
            ''/app/tmp/audio-meta-0000000000000000.mp3'' True]\<rparr>)"
    by (simp add: run_simps demo_defs negative_probe_def start_def Let_def)
  have p: "runFfprobe negative_probe ''/app/tmp/audio-meta-0000000000000000.mp3''
       \<lparr>draws = 1, trace = [Download (JStr ''http://cdn/a.mp3'')
            ''/app/tmp/audio-meta-0000000000000000.mp3'' True]\<rparr>
     = (Inr (Fin (- 5)),
        \<lparr>draws = 1,
          trace = [Download (JStr ''http://cdn/a.mp3'') ''/app/tmp/audio-meta-0000000000000000.mp3'' True,
                   RunFfprobe ''/app/tmp/audio-meta-0000000000000000.mp3'' True]\<rparr>)"
    by (simp add: run_simps demo_defs negative_probe_def probe_duration_def parseFloat_def
        probe_negative)
  have "media_metadata negative_probe
     (post ''/v1/media/metadata'' keyed (JObj [(''media_url'', JStr ''http://cdn/a.mp3'')]))
     (start 0)
    = (metadata_response negative_probe (Fin (- 5)),
        \<lparr>draws = 1,
          trace = [Download (JStr ''http://cdn/a.mp3'') ''/app/tmp/audio-meta-0000000000000000.mp3'' True,
                   RunFfprobe ''/app/tmp/audio-meta-0000000000000000.mp3'' True]\<rparr>)"
    by (rule metadata_run [OF _ _ d p]) (simp_all add: post_def own_prop_def)
  then show ?thesis
    by (simp add: metadata_response_def res_json_def format_minus_five)
qed

section \<open>The concatenation manifest\<close>

lemma split_lines_one: "nl \<notin> set a \<Longrightarrow> split_lines a = [a]"
  by (induction a) auto

lemma split_lines_append:
  "nl \<notin> set a \<Longrightarrow> split_lines (a @ nl # rest) = a # split_lines rest"
  by (induction a) auto

lemma set_replace_quotes: "set (replace_quotes p) \<subseteq> set p \<union> {sq, bs}"
  by (induction p) (auto simp: replace_quotes_def)

lemma manifest_line_no_nl: "nl \<notin> set p \<Longrightarrow> nl \<notin> set (manifest_line p)"
proof -
  assume "nl \<notin> set p"
  moreover have "nl \<noteq> sq" "nl \<noteq> bs" by (simp_all add: nl_def sq_def bs_def)
  ultimately have "nl \<notin> set (replace_quotes p)"
    using set_replace_quotes [of p] by auto
  moreover have "nl \<notin> set ''file ''" by (simp add: nl_def)
  ultimately show ?thesis
    using \<open>nl \<noteq> sq\<close> by (simp add: manifest_line_def)
qed

lemma split_lines_join:
  "ls \<noteq> [] \<Longrightarrow> \<forall>l \<in> set ls. nl \<notin> set l \<Longrightarrow> split_lines (join_with [nl] ls) = ls"
proof (induction ls)
  case Nil
  then show ?case by simp
next
  case (Cons l ls)
  show ?case
  proof (cases ls)
    case Nil
    with Cons.prems show ?thesis by (simp add: split_lines_one)
  next
    case (Cons m ms)
    with Cons.prems Cons.IH have "split_lines (join_with [nl] ls) = ls" by simp
    with Cons Cons.prems show ?thesis by (simp add: split_lines_append)
  qed
qed

lemma read_quoted_stretch:
  "read_word True (replace_quotes p @ sq # rest) = map_option ((@) p) (read_word False rest)"
proof (induction p)
  case Nil
  show ?case by (simp add: replace_quotes_def option.map_ident)
next
  case (Cons c p)
  have ne: "bs \<noteq> sq" by (simp add: bs_def sq_def)
  show ?case
  proof (cases "c = sq")
    case True
    then have "replace_quotes (c # p) = [sq, bs, sq, sq] @ replace_quotes p"
      by (simp add: replace_quotes_def)
    then show ?thesis
      using Cons.IH True ne by (simp add: option.map_comp comp_def)
  next
    case False
    then have "replace_quotes (c # p) = c # replace_quotes p"
      by (simp add: replace_quotes_def)
    then show ?thesis
      using Cons.IH False by (simp add: option.map_comp comp_def)
  qed
qed

lemma read_word_quoted: "read_word False ([sq] @ replace_quotes p @ [sq]) = Some p"
  using read_quoted_stretch [of p "[]"] by simp

text \<open>
  C2, amended. For a non-empty list of paths, none containing a line feed, the manifest
  has exactly one line per path, in the order of the list; each line is the directive
  \<^verbatim>\<open>file\<close>, a space, and the path in single quotes, every single quote inside the
  path rewritten as quote, backslash, quote, quote. Read back as a quoted word, the
  quoted path gives the path again, quotes included.
\<close>

theorem manifest_lines:
  assumes "localPaths \<noteq> []" and "\<forall>p \<in> set localPaths. nl \<notin> set p"
  shows "split_lines (listContent localPaths)
           = map (\<lambda>p. ''file '' @ [sq] @ replace_quotes p @ [sq]) localPaths
     \<and> length (split_lines (listContent localPaths)) = length localPaths
     \<and> (\<forall>p \<in> set localPaths. read_word False ([sq] @ replace_quotes p @ [sq]) = Some p)"
proof -
  have "\<forall>l \<in> set (map manifest_line localPaths). nl \<notin> set l"
    using assms(2) by (auto simp: manifest_line_no_nl)
  moreover have "map manifest_line localPaths \<noteq> []" using assms(1) by simp
  ultimately have "split_lines (listContent localPaths) = map manifest_line localPaths"
    unfolding listContent_def by (rule split_lines_join [rotated])
  moreover have "map manifest_line localPaths
      = map (\<lambda>p. ''file '' @ [sq] @ replace_quotes p @ [sq]) localPaths"
    by (simp add: manifest_line_def)
  ultimately have lines: "split_lines (listContent localPaths)
      = map (\<lambda>p. ''file '' @ [sq] @ replace_quotes p @ [sq]) localPaths"
    by (rule trans)
  then have "length (split_lines (listContent localPaths)) = length localPaths"
    by (simp only: length_map)
  moreover have "\<forall>p \<in> set localPaths. read_word False ([sq] @ replace_quotes p @ [sq]) = Some p"
    using read_word_quoted by blast
  ultimately show ?thesis using lines by blast
qed

theorem manifest_lines_witness:
  "split_lines (listContent [''/app/tmp/concat-00.mp4'', ''/app/tmp/concat-01.mp'' @ [sq] @ ''4''])
     = [''file '' @ [sq] @ ''/app/tmp/concat-00.mp4'' @ [sq],
        ''file '' @ [sq] @ ''/app/tmp/concat-01.mp'' @ [sq, bs, sq, sq] @ ''4'' @ [sq]]
   \<and> read_word False ([sq] @ ''/app/tmp/concat-01.mp'' @ [sq, bs, sq, sq] @ ''4'' @ [sq])
     = Some (''/app/tmp/concat-01.mp'' @ [sq] @ ''4'')"
  using manifest_lines [of "[''/app/tmp/concat-00.mp4'', ''/app/tmp/concat-01.mp'' @ [sq] @ ''4'']"]
  by (simp add: nl_def sq_def bs_def replace_quotes_def)

text \<open>
  C2 as stated fails in two places: a line of the manifest is not the bare quoted path
  but starts with the directive \<^verbatim>\<open>file\<close>, and a path that contains a line feed
  makes two lines out of one entry.
\<close>

theorem manifest_line_has_directive:
  "split_lines (listContent [''/app/tmp/concat-00.mp4''])
     = [''file '' @ [sq] @ ''/app/tmp/concat-00.mp4'' @ [sq]]
   \<and> split_lines (listContent [''/app/tmp/concat-00.mp4''])
     \<noteq> [[sq] @ ''/app/tmp/concat-00.mp4'' @ [sq]]
   \<and> length (split_lines (listContent [''/srv/new'' @ [nl] @ ''line/tmp/concat-00.mp4''])) = 2"
  by (simp add: listContent_def manifest_line_def replace_quotes_def nl_def sq_def bs_def)

end
